theory Spec2Isabelle
  imports Main
begin

section \<open>Go values and the declarations that client.go relies on\<close>

text \<open>
  The file under verification is \<^verbatim>\<open>graphql/client.go\<close>. It places values of several Go
  types into a \<^verbatim>\<open>map[string]interface{}\<close> and inspects a \<^verbatim>\<open>graphql.ID\<close> (itself
  \<^verbatim>\<open>interface{}\<close>) with \<^verbatim>\<open>== nil\<close> and \<^verbatim>\<open>fmt.Sprint\<close>. A dynamic Go value is one of:
  the nil interface, a \<^verbatim>\<open>string\<close>, a \<^verbatim>\<open>graphql.String\<close>, an integer, a \<^verbatim>\<open>graphql.Int\<close>,
  or a slice of such values.
\<close>

datatype go_value =
    go_nil
  | go_string string
  | graphql_String string
  | go_int int
  | graphql_Int int
  | go_slice "go_value list"

text \<open>\<^verbatim>\<open>map[string]interface{}\<close>; a nil map reads like the empty map.\<close>

type_synonym vars = "string \<rightharpoonup> go_value"

text \<open>\<^verbatim>\<open>fmt.Sprint\<close> of one operand (the \<^verbatim>\<open>%v\<close> rendering).\<close>

fun decimal :: "nat \<Rightarrow> string" where
  "decimal n =
     (if n < 10 then [char_of (48 + n)]
      else decimal (n div 10) @ [char_of (48 + n mod 10)])"

declare decimal.simps [simp del]

definition Sprint_int :: "int \<Rightarrow> string" where
  "Sprint_int i = (if i < 0 then CHR ''-'' # decimal (nat (- i)) else decimal (nat i))"

fun join :: "string \<Rightarrow> string list \<Rightarrow> string" where
  "join sep [] = []"
| "join sep [x] = x"
| "join sep (x # y # ys) = x @ sep @ join sep (y # ys)"

fun Sprint :: "go_value \<Rightarrow> string" where
  "Sprint go_nil = ''<nil>''"
| "Sprint (go_string s) = s"
| "Sprint (graphql_String s) = s"
| "Sprint (go_int i) = Sprint_int i"
| "Sprint (graphql_Int i) = Sprint_int i"
| "Sprint (go_slice vs) = ''['' @ join '' '' (map Sprint vs) @ '']''"

text \<open>
  The conversion \<^verbatim>\<open>graphql.Int(x)\<close>: \<^verbatim>\<open>graphql.Int\<close> is \<^verbatim>\<open>int32\<close>, and a Go integer
  conversion keeps the low 32 bits, read as a signed number.
\<close>

definition int32 :: "int \<Rightarrow> int" where
  "int32 x = (x + 2147483648) mod 4294967296 - 2147483648"

text \<open>
  Modelled from the spec: the error values \<^verbatim>\<open>ErrTokenNotSet\<close>, \<^verbatim>\<open>ErrTooManyArguments\<close> and
  \<^verbatim>\<open>ErrInvalidArgument\<close> are declared outside client.go. Every other value of Go's
  \<^verbatim>\<open>error\<close> interface is \<open>other_error\<close> with its message; the nil error is \<open>None\<close>.
\<close>

datatype error =
    ErrTokenNotSet
  | ErrTooManyArguments
  | ErrInvalidArgument
  | other_error string

text \<open>
  A run-time panic of the Go program: the nil-pointer dereference, or any other panic with its
  message. No function of client.go recovers from a panic, so a panic raised inside a call
  ends the caller too.
\<close>

datatype panic = nil_pointer_dereference | other_panic string

text \<open>
  Modelled from the spec: \<^verbatim>\<open>User\<close> and \<^verbatim>\<open>Channel\<close> are declared outside client.go, which
  reads and writes only their \<^verbatim>\<open>ID\<close> field (a \<^verbatim>\<open>graphql.ID\<close>).
\<close>

record User =
  User_ID :: go_value

record Channel =
  Channel_ID :: go_value

text \<open>
  Modelled from the spec: the option structs are declared outside client.go, which reads
  \<^verbatim>\<open>First\<close>, \<^verbatim>\<open>After\<close> and, for streams and games, \<^verbatim>\<open>Options\<close>. \<^verbatim>\<open>First\<close> is an
  integer of a width client.go does not show; \<^verbatim>\<open>After\<close> and \<^verbatim>\<open>Options\<close> are carried as
  the dynamic values that reach the variable mapping.
\<close>

record VideoQueryOpts =
  First :: int
  After :: go_value

record StreamQueryOpts = VideoQueryOpts +
  Options :: go_value

type_synonym GameQueryOpts = StreamQueryOpts
type_synonym FollowQueryOpts = VideoQueryOpts
type_synonym ModsQueryOpts = VideoQueryOpts
type_synonym VIPsQueryOpts = VideoQueryOpts

text \<open>
  Modelled from the spec: the helpers \<^verbatim>\<open>toIDs\<close> and \<^verbatim>\<open>toStrings\<close> are defined outside
  client.go. They marshal the identifiers, in order, as an ID-typed list
  (\<^verbatim>\<open>[]graphql.ID\<close>, each ID holding the Go string) and as a string-typed list
  (\<^verbatim>\<open>[]graphql.String\<close>).
\<close>

definition toIDs :: "string list \<Rightarrow> go_value" where
  "toIDs ids = go_slice (map go_string ids)"

definition toStrings :: "string list \<Rightarrow> go_value" where
  "toStrings strs = go_slice (map graphql_String strs)"

section \<open>Query descriptors\<close>

text \<open>
  Modelled from the spec: the descriptor structs \<^verbatim>\<open>GQL...Query\<close> are declared outside
  client.go. Each is modelled by the fields client.go reads after the transport has
  decoded into it. A pointer is an \<open>option\<close> (\<open>None\<close> is nil), a slice is a
  \<open>list option\<close> (\<open>None\<close> is the nil slice, \<open>Some []\<close> the empty non-nil slice). The
  result types (\<^verbatim>\<open>StreamsQuery\<close>, \<^verbatim>\<open>VideosQuery\<close>, \<^verbatim>\<open>Clip\<close>, ...) are never inspected
  by client.go and are type parameters. The zero value of a descriptor,
  \<^verbatim>\<open>GQL...Query{}\<close>, has a nil (or false) field.

  For the four nested connections (videos of a user, followers, moderators, VIPs) the
  \<^verbatim>\<open>Data\<close> field is the nullable outer payload, an object holding the nested connection
  pointer.
\<close>

datatype GQLUsernameAvailabilityQuery = GQLUsernameAvailabilityQuery bool
datatype GQLCurrentUserQuery = GQLCurrentUserQuery "User option"
datatype GQLUserIDsQuery = GQLUserIDsQuery "User list option"
datatype GQLUserLoginsQuery = GQLUserLoginsQuery "User list option"
datatype GQLChannelIDsQuery = GQLChannelIDsQuery "Channel list option"
datatype GQLChannelNamesQuery = GQLChannelNamesQuery "Channel list option"
datatype 'r GQLStreamsQuery = GQLStreamsQuery "'r option"
datatype 'r GQLVideosQuery = GQLVideosQuery "'r option"
datatype 'r GQLClipQuery = GQLClipQuery "'r option"
datatype 'r GQLGamesQuery = GQLGamesQuery "'r option"

datatype 'r user_videos = user_videos (Videos: "'r option")
datatype 'r user_followers = user_followers (Followers: "'r option")
datatype 'r user_mods = user_mods (Mods: "'r option")
datatype 'r user_vips = user_vips (VIPs: "'r option")

datatype 'r GQLUserVideosQuery = GQLUserVideosQuery "'r user_videos option"
datatype 'r GQLFollowersQuery = GQLFollowersQuery "'r user_followers option"
datatype 'r GQLModsQuery = GQLModsQuery "'r user_mods option"
datatype 'r GQLVIPsQuery = GQLVIPsQuery "'r user_vips option"

section \<open>The transport and the client\<close>

text \<open>
  The transport is the external GraphQL library: \<^verbatim>\<open>Query\<close> and \<^verbatim>\<open>Mutate\<close> take the
  descriptor and the variable mapping, decode the answer into the descriptor and return an
  error (or nil), or panic. It is a parameter of the model: any pair of functions from the
  descriptor, the variables and the state of the remote side to the outcome of the call (a
  panic, or the decoded descriptor with the error) and the new state. A client is typed by
  the descriptor type \<open>'q\<close> it is run on. The request headers that the HTTP layer derives
  from the client's \<^verbatim>\<open>ID\<close> and \<^verbatim>\<open>bearer\<close> are added below this interface, outside
  client.go. The library in use derives the declared type of every variable by reflection
  before it sends anything, and panics there on a variable that holds the nil interface.

  The world threaded through every operation holds the state of the remote side and the
  trace of the calls of the transport, oldest first: what was passed to \<^verbatim>\<open>Query\<close> or
  \<^verbatim>\<open>Mutate\<close> and how the call ended.
\<close>

datatype 'q request = QueryRequest 'q vars | MutateRequest 'q vars

type_synonym 'q reply = "'q \<times> error option"

type_synonym 'q outcome = "panic + 'q reply"

record ('q, 's) graphql_Client =
  Query :: "'q \<Rightarrow> vars \<Rightarrow> 's \<Rightarrow> 'q outcome \<times> 's"
  Mutate :: "'q \<Rightarrow> vars \<Rightarrow> 's \<Rightarrow> 'q outcome \<times> 's"

record ('q, 's) Client =
  ID :: string
  bearer :: string
  graphql :: "('q, 's) graphql_Client"

record ('q, 's) world =
  trace :: "('q request \<times> 'q outcome) list"
  remote :: 's

text \<open>
  \<^verbatim>\<open>New\<close> builds the client with the application identity \<^verbatim>\<open>api.Official.ID\<close> and the
  transport made by the GraphQL library; both come from outside client.go and are
  parameters here. The bearer token starts as the empty string.
\<close>

definition New :: "string \<Rightarrow> ('q, 's) graphql_Client \<Rightarrow> ('q, 's) Client" where
  "New official_ID transport = \<lparr>ID = official_ID, bearer = [], graphql = transport\<rparr>"

definition SetBearer :: "('q, 's) Client \<Rightarrow> string \<Rightarrow> ('q, 's) Client" where
  "SetBearer client token = client\<lparr>bearer := token\<rparr>"

definition CustomQuery ::
  "('q, 's) Client \<Rightarrow> 'q \<Rightarrow> vars \<Rightarrow> ('q, 's) world \<Rightarrow> 'q outcome \<times> ('q, 's) world" where
  "CustomQuery client query vars w =
     (let (out, s) = Query (graphql client) query vars (remote w)
      in (out, \<lparr>trace = trace w @ [(QueryRequest query vars, out)], remote = s\<rparr>))"

definition CustomMutation ::
  "('q, 's) Client \<Rightarrow> 'q \<Rightarrow> vars \<Rightarrow> ('q, 's) world \<Rightarrow> 'q outcome \<times> ('q, 's) world" where
  "CustomMutation client mutation vars w =
     (let (out, s) = Mutate (graphql client) mutation vars (remote w)
      in (out, \<lparr>trace = trace w @ [(MutateRequest mutation vars, out)], remote = s\<rparr>))"

section \<open>Operations\<close>

definition IsUsernameAvailable ::
  "(GQLUsernameAvailabilityQuery, 's) Client \<Rightarrow> string \<Rightarrow>
   (GQLUsernameAvailabilityQuery, 's) world \<Rightarrow>
   (panic + bool \<times> error option) \<times> (GQLUsernameAvailabilityQuery, 's) world" where
  "IsUsernameAvailable client username w =
     (let query = GQLUsernameAvailabilityQuery False;
          vars = [''username'' \<mapsto> graphql_String username];
          (out, w) = CustomQuery client query vars w
      in case out of
           Inl p \<Rightarrow> (Inl p, w)
         | Inr (GQLUsernameAvailabilityQuery IsAvailable, err) \<Rightarrow> (Inr (IsAvailable, err), w))"

definition GetCurrentUser ::
  "(GQLCurrentUserQuery, 's) Client \<Rightarrow> (GQLCurrentUserQuery, 's) world \<Rightarrow>
   (panic + User option \<times> error option) \<times> (GQLCurrentUserQuery, 's) world" where
  "GetCurrentUser client w =
     (if length (bearer client) < 1 then (Inr (None, Some ErrTokenNotSet), w)
      else
        let query = GQLCurrentUserQuery None;
            (out, w) = CustomQuery client query Map.empty w
        in case out of
           Inl p \<Rightarrow> (Inl p, w)
         | Inr (GQLCurrentUserQuery Data, err) \<Rightarrow> (Inr (Data, err), w))"

definition GetUsersByID ::
  "(GQLUserIDsQuery, 's) Client \<Rightarrow> string list \<Rightarrow> (GQLUserIDsQuery, 's) world \<Rightarrow>
   (panic + User list option \<times> error option) \<times> (GQLUserIDsQuery, 's) world" where
  "GetUsersByID client ids w =
     (if length ids > 100 then (Inr (Some [], Some ErrTooManyArguments), w)
      else
        let query = GQLUserIDsQuery None;
            vars = [''ids'' \<mapsto> toIDs ids];
            (out, w) = CustomQuery client query vars w
        in case out of
           Inl p \<Rightarrow> (Inl p, w)
         | Inr (GQLUserIDsQuery Data, err) \<Rightarrow> (Inr (Data, err), w))"

definition GetUsersByLogin ::
  "(GQLUserLoginsQuery, 's) Client \<Rightarrow> string list \<Rightarrow> (GQLUserLoginsQuery, 's) world \<Rightarrow>
   (panic + User list option \<times> error option) \<times> (GQLUserLoginsQuery, 's) world" where
  "GetUsersByLogin client logins w =
     (if length logins > 100 then (Inr (Some [], Some ErrTooManyArguments), w)
      else
        let query = GQLUserLoginsQuery None;
            vars = [''logins'' \<mapsto> toStrings logins];
            (out, w) = CustomQuery client query vars w
        in case out of
           Inl p \<Rightarrow> (Inl p, w)
         | Inr (GQLUserLoginsQuery Data, err) \<Rightarrow> (Inr (Data, err), w))"

definition GetChannelsByID ::
  "(GQLChannelIDsQuery, 's) Client \<Rightarrow> string list \<Rightarrow> (GQLChannelIDsQuery, 's) world \<Rightarrow>
   (panic + Channel list option \<times> error option) \<times> (GQLChannelIDsQuery, 's) world" where
  "GetChannelsByID client ids w =
     (if length ids > 100 then (Inr (Some [], Some ErrTooManyArguments), w)
      else
        let query = GQLChannelIDsQuery None;
            vars = [''ids'' \<mapsto> toIDs ids];
            (out, w) = CustomQuery client query vars w
        in case out of
           Inl p \<Rightarrow> (Inl p, w)
         | Inr (GQLChannelIDsQuery Data, err) \<Rightarrow> (Inr (Data, err), w))"

definition GetChannelsByName ::
  "(GQLChannelNamesQuery, 's) Client \<Rightarrow> string list \<Rightarrow> (GQLChannelNamesQuery, 's) world \<Rightarrow>
   (panic + Channel list option \<times> error option) \<times> (GQLChannelNamesQuery, 's) world" where
  "GetChannelsByName client names w =
     (if length names > 100 then (Inr (Some [], Some ErrTooManyArguments), w)
      else
        let query = GQLChannelNamesQuery None;
            vars = [''names'' \<mapsto> toStrings names];
            (out, w) = CustomQuery client query vars w
        in case out of
           Inl p \<Rightarrow> (Inl p, w)
         | Inr (GQLChannelNamesQuery Data, err) \<Rightarrow> (Inr (Data, err), w))"

definition GetStreams ::
  "('r GQLStreamsQuery, 's) Client \<Rightarrow> StreamQueryOpts \<Rightarrow> ('r GQLStreamsQuery, 's) world \<Rightarrow>
   (panic + 'r option \<times> error option) \<times> ('r GQLStreamsQuery, 's) world" where
  "GetStreams client opts w =
     (let opts = (if First opts < 1 \<or> First opts > 100 then opts\<lparr>First := 25\<rparr> else opts);
          query = GQLStreamsQuery None;
          vars = [''first'' \<mapsto> graphql_Int (int32 (First opts)),
                  ''after'' \<mapsto> After opts,
                  ''options'' \<mapsto> Options opts];
          (out, w) = CustomQuery client query vars w
      in case out of
           Inl p \<Rightarrow> (Inl p, w)
         | Inr (GQLStreamsQuery Data, err) \<Rightarrow> (Inr (Data, err), w))"

definition GetVideos ::
  "('r GQLVideosQuery, 's) Client \<Rightarrow> VideoQueryOpts \<Rightarrow> ('r GQLVideosQuery, 's) world \<Rightarrow>
   (panic + 'r option \<times> error option) \<times> ('r GQLVideosQuery, 's) world" where
  "GetVideos client opts w =
     (let opts = (if First opts < 1 \<or> First opts > 100 then opts\<lparr>First := 25\<rparr> else opts);
          query = GQLVideosQuery None;
          vars = [''first'' \<mapsto> graphql_Int (int32 (First opts)),
                  ''after'' \<mapsto> After opts];
          (out, w) = CustomQuery client query vars w
      in case out of
           Inl p \<Rightarrow> (Inl p, w)
         | Inr (GQLVideosQuery Data, err) \<Rightarrow> (Inr (Data, err), w))"

text \<open>
  Reading a field through a pointer: \<^verbatim>\<open>query.Data.Videos\<close> with \<^verbatim>\<open>query.Data\<close> nil is a
  run-time panic.
\<close>

definition deref :: "'a option \<Rightarrow> panic + 'a" where
  "deref p = (case p of None \<Rightarrow> Inl nil_pointer_dereference | Some x \<Rightarrow> Inr x)"

definition GetVideosByUser ::
  "('r GQLUserVideosQuery, 's) Client \<Rightarrow> User \<Rightarrow> VideoQueryOpts \<Rightarrow>
   ('r GQLUserVideosQuery, 's) world \<Rightarrow>
   (panic + 'r option \<times> error option) \<times> ('r GQLUserVideosQuery, 's) world" where
  "GetVideosByUser client user opts w =
     (let opts = (if First opts < 1 \<or> First opts > 100 then opts\<lparr>First := 25\<rparr> else opts);
          query = GQLUserVideosQuery None;
          vars = [''id'' \<mapsto> User_ID user,
                  ''first'' \<mapsto> graphql_Int (int32 (First opts)),
                  ''after'' \<mapsto> After opts];
          (out, w) = CustomQuery client query vars w
      in case out of
             Inl p \<Rightarrow> (Inl p, w)
           | Inr (GQLUserVideosQuery Data, err) \<Rightarrow>
               if Data = None then (Inr (None, err), w)
               else (case deref Data of
                       Inl p \<Rightarrow> (Inl p, w)
                     | Inr d \<Rightarrow> (Inr (Videos d, err), w)))"

definition GetVideosByChannel ::
  "('r GQLUserVideosQuery, 's) Client \<Rightarrow> Channel \<Rightarrow> VideoQueryOpts \<Rightarrow>
   ('r GQLUserVideosQuery, 's) world \<Rightarrow>
   (panic + 'r option \<times> error option) \<times> ('r GQLUserVideosQuery, 's) world" where
  "GetVideosByChannel client channel opts w =
     GetVideosByUser client \<lparr>User_ID = Channel_ID channel\<rparr> opts w"

definition GetClipBySlug ::
  "('r GQLClipQuery, 's) Client \<Rightarrow> string \<Rightarrow> ('r GQLClipQuery, 's) world \<Rightarrow>
   (panic + 'r option \<times> error option) \<times> ('r GQLClipQuery, 's) world" where
  "GetClipBySlug client slug w =
     (let query = GQLClipQuery None;
          vars = [''slug'' \<mapsto> go_string slug];
          (out, w) = CustomQuery client query vars w
      in case out of
           Inl p \<Rightarrow> (Inl p, w)
         | Inr (GQLClipQuery Data, err) \<Rightarrow> (Inr (Data, err), w))"

definition GetGames ::
  "('r GQLGamesQuery, 's) Client \<Rightarrow> GameQueryOpts \<Rightarrow> ('r GQLGamesQuery, 's) world \<Rightarrow>
   (panic + 'r option \<times> error option) \<times> ('r GQLGamesQuery, 's) world" where
  "GetGames client opts w =
     (let opts = (if First opts < 1 \<or> First opts > 100 then opts\<lparr>First := 25\<rparr> else opts);
          query = GQLGamesQuery None;
          vars = [''first'' \<mapsto> graphql_Int (int32 (First opts)),
                  ''after'' \<mapsto> After opts,
                  ''options'' \<mapsto> Options opts];
          (out, w) = CustomQuery client query vars w
      in case out of
           Inl p \<Rightarrow> (Inl p, w)
         | Inr (GQLGamesQuery Data, err) \<Rightarrow> (Inr (Data, err), w))"

definition GetFollowersForUser ::
  "('r GQLFollowersQuery, 's) Client \<Rightarrow> User \<Rightarrow> FollowQueryOpts \<Rightarrow>
   ('r GQLFollowersQuery, 's) world \<Rightarrow>
   (panic + 'r option \<times> error option) \<times> ('r GQLFollowersQuery, 's) world" where
  "GetFollowersForUser client user opts w =
     (if User_ID user = go_nil \<or> length (Sprint (User_ID user)) < 1
      then (Inr (None, Some ErrInvalidArgument), w)
      else
        let opts = (if First opts < 1 \<or> First opts > 100 then opts\<lparr>First := 25\<rparr> else opts);
            query = GQLFollowersQuery None;
            vars = [''id'' \<mapsto> User_ID user,
                    ''first'' \<mapsto> graphql_Int (int32 (First opts)),
                    ''after'' \<mapsto> After opts];
            (out, w) = CustomQuery client query vars w
        in case out of
             Inl p \<Rightarrow> (Inl p, w)
           | Inr (GQLFollowersQuery Data, err) \<Rightarrow>
                 if Data = None then (Inr (None, err), w)
                 else (case deref Data of
                         Inl p \<Rightarrow> (Inl p, w)
                       | Inr d \<Rightarrow> (Inr (Followers d, err), w)))"

definition GetFollowersForChannel ::
  "('r GQLFollowersQuery, 's) Client \<Rightarrow> Channel \<Rightarrow> FollowQueryOpts \<Rightarrow>
   ('r GQLFollowersQuery, 's) world \<Rightarrow>
   (panic + 'r option \<times> error option) \<times> ('r GQLFollowersQuery, 's) world" where
  "GetFollowersForChannel client channel opts w =
     (if Channel_ID channel = go_nil \<or> length (Sprint (Channel_ID channel)) < 1
      then (Inr (None, Some ErrInvalidArgument), w)
      else
        let opts = (if First opts < 1 \<or> First opts > 100 then opts\<lparr>First := 25\<rparr> else opts);
            query = GQLFollowersQuery None;
            vars = [''id'' \<mapsto> Channel_ID channel,
                    ''first'' \<mapsto> graphql_Int (int32 (First opts)),
                    ''after'' \<mapsto> After opts];
            (out, w) = CustomQuery client query vars w
        in case out of
             Inl p \<Rightarrow> (Inl p, w)
           | Inr (GQLFollowersQuery Data, err) \<Rightarrow>
                 if Data = None then (Inr (None, err), w)
                 else (case deref Data of
                         Inl p \<Rightarrow> (Inl p, w)
                       | Inr d \<Rightarrow> (Inr (Followers d, err), w)))"

definition GetModsForUser ::
  "('r GQLModsQuery, 's) Client \<Rightarrow> User \<Rightarrow> ModsQueryOpts \<Rightarrow>
   ('r GQLModsQuery, 's) world \<Rightarrow>
   (panic + 'r option \<times> error option) \<times> ('r GQLModsQuery, 's) world" where
  "GetModsForUser client user opts w =
     (if User_ID user = go_nil \<or> length (Sprint (User_ID user)) < 1
      then (Inr (None, Some ErrInvalidArgument), w)
      else
        let opts = (if First opts < 1 \<or> First opts > 100 then opts\<lparr>First := 25\<rparr> else opts);
            query = GQLModsQuery None;
            vars = [''id'' \<mapsto> User_ID user,
                    ''first'' \<mapsto> graphql_Int (int32 (First opts)),
                    ''after'' \<mapsto> After opts];
            (out, w) = CustomQuery client query vars w
        in case out of
             Inl p \<Rightarrow> (Inl p, w)
           | Inr (GQLModsQuery Data, err) \<Rightarrow>
                 (case deref Data of
                    Inl p \<Rightarrow> (Inl p, w)
                  | Inr d \<Rightarrow> (Inr (Mods d, err), w)))"

definition GetVIPsForUser ::
  "('r GQLVIPsQuery, 's) Client \<Rightarrow> User \<Rightarrow> VIPsQueryOpts \<Rightarrow>
   ('r GQLVIPsQuery, 's) world \<Rightarrow>
   (panic + 'r option \<times> error option) \<times> ('r GQLVIPsQuery, 's) world" where
  "GetVIPsForUser client user opts w =
     (if User_ID user = go_nil \<or> length (Sprint (User_ID user)) < 1
      then (Inr (None, Some ErrInvalidArgument), w)
      else
        let opts = (if First opts < 1 \<or> First opts > 100 then opts\<lparr>First := 25\<rparr> else opts);
            query = GQLVIPsQuery None;
            vars = [''id'' \<mapsto> User_ID user,
                    ''first'' \<mapsto> graphql_Int (int32 (First opts)),
                    ''after'' \<mapsto> After opts];
            (out, w) = CustomQuery client query vars w
        in case out of
             Inl p \<Rightarrow> (Inl p, w)
           | Inr (GQLVIPsQuery Data, err) \<Rightarrow>
                 (case deref Data of
                    Inl p \<Rightarrow> (Inl p, w)
                  | Inr d \<Rightarrow> (Inr (VIPs d, err), w)))"

definition GetModsForChannel ::
  "('r GQLModsQuery, 's) Client \<Rightarrow> Channel \<Rightarrow> ModsQueryOpts \<Rightarrow>
   ('r GQLModsQuery, 's) world \<Rightarrow>
   (panic + 'r option \<times> error option) \<times> ('r GQLModsQuery, 's) world" where
  "GetModsForChannel client channel opts w =
     GetModsForUser client \<lparr>User_ID = Channel_ID channel\<rparr> opts w"

definition GetVIPsForChannel ::
  "('r GQLVIPsQuery, 's) Client \<Rightarrow> Channel \<Rightarrow> VIPsQueryOpts \<Rightarrow>
   ('r GQLVIPsQuery, 's) world \<Rightarrow>
   (panic + 'r option \<times> error option) \<times> ('r GQLVIPsQuery, 's) world" where
  "GetVIPsForChannel client channel opts w =
     GetVIPsForUser client \<lparr>User_ID = Channel_ID channel\<rparr> opts w"

section \<open>Test transports\<close>

text \<open>
  Two stand-ins for the remote side, used to run the operations on concrete inputs. Their
  state counts the requests served. Like the GraphQL library, which derives the declared
  type of every variable by reflection before it sends anything, both panic when a variable
  holds the nil interface. Otherwise \<open>offline\<close> fails with a network error and leaves the
  descriptor as it was handed in, and \<open>canned d\<close> decodes the fixed answer \<open>d\<close> into the
  descriptor and reports no error.
\<close>

definition nil_variable :: "vars \<Rightarrow> bool" where
  "nil_variable v \<longleftrightarrow> go_nil \<in> ran v"

definition offline :: "('q, nat) graphql_Client" where
  "offline =
     \<lparr>Query = (\<lambda>q v n.
        if nil_variable v then (Inl nil_pointer_dereference, n)
        else (Inr (q, Some (other_error ''connection refused'')), Suc n)),
      Mutate = (\<lambda>q v n.
        if nil_variable v then (Inl nil_pointer_dereference, n)
        else (Inr (q, Some (other_error ''connection refused'')), Suc n))\<rparr>"

definition canned :: "'q \<Rightarrow> ('q, nat) graphql_Client" where
  "canned d =
     \<lparr>Query = (\<lambda>q v n.
        if nil_variable v then (Inl nil_pointer_dereference, n) else (Inr (d, None), Suc n)),
      Mutate = (\<lambda>q v n.
        if nil_variable v then (Inl nil_pointer_dereference, n) else (Inr (d, None), Suc n))\<rparr>"

definition fresh :: "('q, nat) world" where
  "fresh = \<lparr>trace = [], remote = 0\<rparr>"

section \<open>Observing a run\<close>

text \<open>
  What an operation did with the transport is read off the trace: \<open>exchanges w res\<close> are
  the calls of the transport, each with its outcome, made by an operation that was started
  in world \<open>w\<close> and ended with \<open>res\<close>, and \<open>sent key w res\<close> lists, for each of them,
  the value passed under \<open>key\<close> in the variable mapping.
\<close>

fun request_vars :: "'q request \<Rightarrow> vars" where
  "request_vars (QueryRequest q v) = v"
| "request_vars (MutateRequest q v) = v"

definition exchanges :: "('q, 's) world \<Rightarrow> 'a \<times> ('q, 's) world \<Rightarrow> ('q request \<times> 'q outcome) list" where
  "exchanges w res = drop (length (trace w)) (trace (snd res))"

definition sent :: "string \<Rightarrow> ('q, 's) world \<Rightarrow> 'a \<times> ('q, 's) world \<Rightarrow> go_value option list" where
  "sent key w res = map (\<lambda>x. request_vars (fst x) key) (exchanges w res)"

section \<open>Properties\<close>

lemma int32_id: "- 2147483648 \<le> x \<Longrightarrow> x < 2147483648 \<Longrightarrow> int32 x = x"
  by (simp add: int32_def)

lemma exchanges_unchanged [simp]: "exchanges w (r, w) = []"
  by (simp add: exchanges_def)

lemma CustomQuery_eq:
  "CustomQuery client query vars w =
     (fst (Query (graphql client) query vars (remote w)),
      \<lparr>trace = trace w @
         [(QueryRequest query vars, fst (Query (graphql client) query vars (remote w)))],
       remote = snd (Query (graphql client) query vars (remote w))\<rparr>)"
  by (simp add: CustomQuery_def split: prod.splits)

lemma CustomMutation_eq:
  "CustomMutation client mutation vars w =
     (fst (Mutate (graphql client) mutation vars (remote w)),
      \<lparr>trace = trace w @
         [(MutateRequest mutation vars, fst (Mutate (graphql client) mutation vars (remote w)))],
       remote = snd (Mutate (graphql client) mutation vars (remote w))\<rparr>)"
  by (simp add: CustomMutation_def split: prod.splits)

lemmas run_simps = CustomQuery_eq exchanges_def sent_def Let_def case_prod_beta

lemma decimal_nonempty: "decimal n \<noteq> []"
  by (subst decimal.simps) simp

lemma Sprint_empty_iff: "Sprint v = [] \<longleftrightarrow> v = go_string [] \<or> v = graphql_String []"
  by (cases v) (simp_all add: Sprint_int_def decimal_nonempty)

lemma nil_variable_simps:
  "\<not> nil_variable Map.empty"
  "nil_variable [a \<mapsto> x] \<longleftrightarrow> x = go_nil"
  "a \<noteq> b \<Longrightarrow> nil_variable [a \<mapsto> x, b \<mapsto> y] \<longleftrightarrow> x = go_nil \<or> y = go_nil"
  "a \<noteq> b \<Longrightarrow> a \<noteq> c \<Longrightarrow> b \<noteq> c \<Longrightarrow>
     nil_variable [a \<mapsto> x, b \<mapsto> y, c \<mapsto> z] \<longleftrightarrow> x = go_nil \<or> y = go_nil \<or> z = go_nil"
  by (auto simp add: nil_variable_def ran_def split: if_splits)

text \<open>
  What each nested-connection operation does once its checks have passed, given the outcome
  of the transport's call: the value returned and the world left behind.
\<close>

lemma GetVideosByUser_run:
  assumes "Query (graphql c) (GQLUserVideosQuery None)
             [''id'' \<mapsto> User_ID u,
             ''first'' \<mapsto> graphql_Int (if First opts < 1 \<or> 100 < First opts then 25 else First opts),
             ''after'' \<mapsto> After opts] (remote w) = (out, s)"
  shows "GetVideosByUser c u opts w =
           (case out of
              Inl p \<Rightarrow> Inl p
            | Inr (GQLUserVideosQuery D, err) \<Rightarrow>
                (case D of None \<Rightarrow> Inr (None, err) | Some d \<Rightarrow> Inr (Videos d, err)),
            \<lparr>trace = trace w @
               [(QueryRequest (GQLUserVideosQuery None)
                   [''id'' \<mapsto> User_ID u,
                   ''first'' \<mapsto> graphql_Int (if First opts < 1 \<or> 100 < First opts then 25 else First opts),
                   ''after'' \<mapsto> After opts],
                 out)],
             remote = s\<rparr>)"
proof (cases "First opts < 1 \<or> 100 < First opts")
  case True
  with assms show ?thesis
    by (simp add: GetVideosByUser_def CustomQuery_def int32_def deref_def
        split: sum.splits prod.splits GQLUserVideosQuery.splits option.splits)
next
  case False
  with assms show ?thesis
    by (simp add: GetVideosByUser_def CustomQuery_def int32_def deref_def
        split: sum.splits prod.splits GQLUserVideosQuery.splits option.splits)
qed

lemma GetFollowersForUser_run:
  assumes "User_ID u \<noteq> go_nil" and "Sprint (User_ID u) \<noteq> []"
    and "Query (graphql c) (GQLFollowersQuery None)
             [''id'' \<mapsto> User_ID u,
             ''first'' \<mapsto> graphql_Int (if First opts < 1 \<or> 100 < First opts then 25 else First opts),
             ''after'' \<mapsto> After opts] (remote w) = (out, s)"
  shows "GetFollowersForUser c u opts w =
           (case out of
              Inl p \<Rightarrow> Inl p
            | Inr (GQLFollowersQuery D, err) \<Rightarrow>
                (case D of None \<Rightarrow> Inr (None, err) | Some d \<Rightarrow> Inr (Followers d, err)),
            \<lparr>trace = trace w @
               [(QueryRequest (GQLFollowersQuery None)
                   [''id'' \<mapsto> User_ID u,
                   ''first'' \<mapsto> graphql_Int (if First opts < 1 \<or> 100 < First opts then 25 else First opts),
                   ''after'' \<mapsto> After opts],
                 out)],
             remote = s\<rparr>)"
proof (cases "First opts < 1 \<or> 100 < First opts")
  case True
  with assms show ?thesis
    by (simp add: GetFollowersForUser_def CustomQuery_def int32_def deref_def
        split: sum.splits prod.splits GQLFollowersQuery.splits option.splits)
next
  case False
  with assms show ?thesis
    by (simp add: GetFollowersForUser_def CustomQuery_def int32_def deref_def
        split: sum.splits prod.splits GQLFollowersQuery.splits option.splits)
qed

lemma GetFollowersForChannel_run:
  assumes "Channel_ID ch \<noteq> go_nil" and "Sprint (Channel_ID ch) \<noteq> []"
    and "Query (graphql c) (GQLFollowersQuery None)
             [''id'' \<mapsto> Channel_ID ch,
             ''first'' \<mapsto> graphql_Int (if First opts < 1 \<or> 100 < First opts then 25 else First opts),
             ''after'' \<mapsto> After opts] (remote w) = (out, s)"
  shows "GetFollowersForChannel c ch opts w =
           (case out of
              Inl p \<Rightarrow> Inl p
            | Inr (GQLFollowersQuery D, err) \<Rightarrow>
                (case D of None \<Rightarrow> Inr (None, err) | Some d \<Rightarrow> Inr (Followers d, err)),
            \<lparr>trace = trace w @
               [(QueryRequest (GQLFollowersQuery None)
                   [''id'' \<mapsto> Channel_ID ch,
                   ''first'' \<mapsto> graphql_Int (if First opts < 1 \<or> 100 < First opts then 25 else First opts),
                   ''after'' \<mapsto> After opts],
                 out)],
             remote = s\<rparr>)"
proof (cases "First opts < 1 \<or> 100 < First opts")
  case True
  with assms show ?thesis
    by (simp add: GetFollowersForChannel_def CustomQuery_def int32_def deref_def
        split: sum.splits prod.splits GQLFollowersQuery.splits option.splits)
next
  case False
  with assms show ?thesis
    by (simp add: GetFollowersForChannel_def CustomQuery_def int32_def deref_def
        split: sum.splits prod.splits GQLFollowersQuery.splits option.splits)
qed

lemma GetModsForUser_run:
  assumes "User_ID u \<noteq> go_nil" and "Sprint (User_ID u) \<noteq> []"
    and "Query (graphql c) (GQLModsQuery None)
             [''id'' \<mapsto> User_ID u,
             ''first'' \<mapsto> graphql_Int (if First opts < 1 \<or> 100 < First opts then 25 else First opts),
             ''after'' \<mapsto> After opts] (remote w) = (out, s)"
  shows "GetModsForUser c u opts w =
           (case out of
              Inl p \<Rightarrow> Inl p
            | Inr (GQLModsQuery D, err) \<Rightarrow>
                (case D of None \<Rightarrow> Inl nil_pointer_dereference | Some d \<Rightarrow> Inr (Mods d, err)),
            \<lparr>trace = trace w @
               [(QueryRequest (GQLModsQuery None)
                   [''id'' \<mapsto> User_ID u,
                   ''first'' \<mapsto> graphql_Int (if First opts < 1 \<or> 100 < First opts then 25 else First opts),
                   ''after'' \<mapsto> After opts],
                 out)],
             remote = s\<rparr>)"
proof (cases "First opts < 1 \<or> 100 < First opts")
  case True
  with assms show ?thesis
    by (simp add: GetModsForUser_def CustomQuery_def int32_def deref_def
        split: sum.splits prod.splits GQLModsQuery.splits option.splits)
next
  case False
  with assms show ?thesis
    by (simp add: GetModsForUser_def CustomQuery_def int32_def deref_def
        split: sum.splits prod.splits GQLModsQuery.splits option.splits)
qed

lemma GetVIPsForUser_run:
  assumes "User_ID u \<noteq> go_nil" and "Sprint (User_ID u) \<noteq> []"
    and "Query (graphql c) (GQLVIPsQuery None)
             [''id'' \<mapsto> User_ID u,
             ''first'' \<mapsto> graphql_Int (if First opts < 1 \<or> 100 < First opts then 25 else First opts),
             ''after'' \<mapsto> After opts] (remote w) = (out, s)"
  shows "GetVIPsForUser c u opts w =
           (case out of
              Inl p \<Rightarrow> Inl p
            | Inr (GQLVIPsQuery D, err) \<Rightarrow>
                (case D of None \<Rightarrow> Inl nil_pointer_dereference | Some d \<Rightarrow> Inr (VIPs d, err)),
            \<lparr>trace = trace w @
               [(QueryRequest (GQLVIPsQuery None)
                   [''id'' \<mapsto> User_ID u,
                   ''first'' \<mapsto> graphql_Int (if First opts < 1 \<or> 100 < First opts then 25 else First opts),
                   ''after'' \<mapsto> After opts],
                 out)],
             remote = s\<rparr>)"
proof (cases "First opts < 1 \<or> 100 < First opts")
  case True
  with assms show ?thesis
    by (simp add: GetVIPsForUser_def CustomQuery_def int32_def deref_def
        split: sum.splits prod.splits GQLVIPsQuery.splits option.splits)
next
  case False
  with assms show ?thesis
    by (simp add: GetVIPsForUser_def CustomQuery_def int32_def deref_def
        split: sum.splits prod.splits GQLVIPsQuery.splits option.splits)
qed

text \<open>
  Claim C1. Every paginated listing (\<open>GetStreams\<close>, \<open>GetVideos\<close>, \<open>GetGames\<close>,
  \<open>GetVideosByUser\<close>, \<open>GetFollowersForUser\<close>, \<open>GetFollowersForChannel\<close>,
  \<open>GetModsForUser\<close>, \<open>GetVIPsForUser\<close>) that builds its variable mapping calls the transport
  once, and the variable \<open>first\<close> of that call is 25 when \<open>First\<close> of the options is below
  1 or above 100, and \<open>First\<close> itself when it lies in 1..100. \<open>GetStreams\<close>, \<open>GetVideos\<close>,
  \<open>GetGames\<close> and \<open>GetVideosByUser\<close> build the mapping for every input (for
  \<open>GetVideosByUser\<close>: for every user \<open>x\<close>, whatever its ID); the four operations with a
  subject-ID check build it for a subject \<open>u\<close> or \<open>ch\<close> whose ID passes the check.
\<close>

theorem first_clamped_to_25:
  assumes "User_ID u \<noteq> go_nil" and "Sprint (User_ID u) \<noteq> []"
    and "Channel_ID ch \<noteq> go_nil" and "Sprint (Channel_ID ch) \<noteq> []"
  shows
   "sent ''first'' w1 (GetStreams c1 so w1) =
      [Some (graphql_Int (if First so < 1 \<or> 100 < First so then 25 else First so))] \<and>
    sent ''first'' w2 (GetVideos c2 vo w2) =
      [Some (graphql_Int (if First vo < 1 \<or> 100 < First vo then 25 else First vo))] \<and>
    sent ''first'' w3 (GetGames c3 so w3) =
      [Some (graphql_Int (if First so < 1 \<or> 100 < First so then 25 else First so))] \<and>
    sent ''first'' w4 (GetVideosByUser c4 x vo w4) =
      [Some (graphql_Int (if First vo < 1 \<or> 100 < First vo then 25 else First vo))] \<and>
    sent ''first'' w5 (GetFollowersForUser c5 u vo w5) =
      [Some (graphql_Int (if First vo < 1 \<or> 100 < First vo then 25 else First vo))] \<and>
    sent ''first'' w5 (GetFollowersForChannel c5 ch vo w5) =
      [Some (graphql_Int (if First vo < 1 \<or> 100 < First vo then 25 else First vo))] \<and>
    sent ''first'' w6 (GetModsForUser c6 u vo w6) =
      [Some (graphql_Int (if First vo < 1 \<or> 100 < First vo then 25 else First vo))] \<and>
    sent ''first'' w7 (GetVIPsForUser c7 u vo w7) =
      [Some (graphql_Int (if First vo < 1 \<or> 100 < First vo then 25 else First vo))]"
proof -
  have streams: "sent ''first'' w1 (GetStreams c1 so w1) =
      [Some (graphql_Int (if First so < 1 \<or> 100 < First so then 25 else First so))]"
    by (simp add: GetStreams_def run_simps int32_def
        split: sum.splits prod.splits GQLStreamsQuery.splits)
  have videos: "sent ''first'' w2 (GetVideos c2 vo w2) =
      [Some (graphql_Int (if First vo < 1 \<or> 100 < First vo then 25 else First vo))]"
    by (simp add: GetVideos_def run_simps int32_def
        split: sum.splits prod.splits GQLVideosQuery.splits)
  have games: "sent ''first'' w3 (GetGames c3 so w3) =
      [Some (graphql_Int (if First so < 1 \<or> 100 < First so then 25 else First so))]"
    by (simp add: GetGames_def run_simps int32_def
        split: sum.splits prod.splits GQLGamesQuery.splits)
  obtain o4 s4 where r4: "Query (graphql c4) (GQLUserVideosQuery None)
      [''id'' \<mapsto> User_ID x,
       ''first'' \<mapsto> graphql_Int (if First vo < 1 \<or> 100 < First vo then 25 else First vo),
       ''after'' \<mapsto> After vo] (remote w4) = (o4, s4)"
    by (rule prod.exhaust)
  obtain o5 s5 where r5: "Query (graphql c5) (GQLFollowersQuery None)
      [''id'' \<mapsto> User_ID u,
       ''first'' \<mapsto> graphql_Int (if First vo < 1 \<or> 100 < First vo then 25 else First vo),
       ''after'' \<mapsto> After vo] (remote w5) = (o5, s5)"
    by (rule prod.exhaust)
  obtain o5' s5' where r5': "Query (graphql c5) (GQLFollowersQuery None)
      [''id'' \<mapsto> Channel_ID ch,
       ''first'' \<mapsto> graphql_Int (if First vo < 1 \<or> 100 < First vo then 25 else First vo),
       ''after'' \<mapsto> After vo] (remote w5) = (o5', s5')"
    by (rule prod.exhaust)
  obtain o6 s6 where r6: "Query (graphql c6) (GQLModsQuery None)
      [''id'' \<mapsto> User_ID u,
       ''first'' \<mapsto> graphql_Int (if First vo < 1 \<or> 100 < First vo then 25 else First vo),
       ''after'' \<mapsto> After vo] (remote w6) = (o6, s6)"
    by (rule prod.exhaust)
  obtain o7 s7 where r7: "Query (graphql c7) (GQLVIPsQuery None)
      [''id'' \<mapsto> User_ID u,
       ''first'' \<mapsto> graphql_Int (if First vo < 1 \<or> 100 < First vo then 25 else First vo),
       ''after'' \<mapsto> After vo] (remote w7) = (o7, s7)"
    by (rule prod.exhaust)
  note ok_u = assms(1,2) and ok_ch = assms(3,4)
  have nested:
    "sent ''first'' w4 (GetVideosByUser c4 x vo w4) =
      [Some (graphql_Int (if First vo < 1 \<or> 100 < First vo then 25 else First vo))]"
    "sent ''first'' w5 (GetFollowersForUser c5 u vo w5) =
      [Some (graphql_Int (if First vo < 1 \<or> 100 < First vo then 25 else First vo))]"
    "sent ''first'' w5 (GetFollowersForChannel c5 ch vo w5) =
      [Some (graphql_Int (if First vo < 1 \<or> 100 < First vo then 25 else First vo))]"
    "sent ''first'' w6 (GetModsForUser c6 u vo w6) =
      [Some (graphql_Int (if First vo < 1 \<or> 100 < First vo then 25 else First vo))]"
    "sent ''first'' w7 (GetVIPsForUser c7 u vo w7) =
      [Some (graphql_Int (if First vo < 1 \<or> 100 < First vo then 25 else First vo))]"
    by (simp_all add: GetVideosByUser_run [OF r4] GetFollowersForUser_run [OF ok_u r5]
        GetFollowersForChannel_run [OF ok_ch r5'] GetModsForUser_run [OF ok_u r6]
        GetVIPsForUser_run [OF ok_u r7] sent_def exchanges_def)
  from streams videos games nested show ?thesis by blast
qed

theorem first_clamped_to_25_witness:
  "User_ID \<lparr>User_ID = go_string ''44322889''\<rparr> \<noteq> go_nil \<and>
   Sprint (User_ID \<lparr>User_ID = go_string ''44322889''\<rparr>) \<noteq> [] \<and>
   Channel_ID \<lparr>Channel_ID = go_int 44322889\<rparr> \<noteq> go_nil \<and>
   Sprint (Channel_ID \<lparr>Channel_ID = go_int 44322889\<rparr>) \<noteq> [] \<and>
   sent ''first'' fresh (GetStreams (New ''app'' offline :: (string GQLStreamsQuery, nat) Client)
       \<lparr>First = 0, After = graphql_String [], Options = go_slice []\<rparr> fresh)
     = [Some (graphql_Int 25)] \<and>
   sent ''first'' fresh (GetVideos (New ''app'' offline :: (string GQLVideosQuery, nat) Client)
       \<lparr>First = 101, After = graphql_String []\<rparr> fresh)
     = [Some (graphql_Int 25)] \<and>
   sent ''first'' fresh (GetGames (New ''app'' offline :: (string GQLGamesQuery, nat) Client)
       \<lparr>First = 0, After = graphql_String [], Options = go_slice []\<rparr> fresh)
     = [Some (graphql_Int 25)] \<and>
   sent ''first'' fresh (GetVideosByUser (New ''app'' offline :: (string GQLUserVideosQuery, nat) Client)
       \<lparr>User_ID = go_string []\<rparr> \<lparr>First = 101, After = graphql_String []\<rparr> fresh)
     = [Some (graphql_Int 25)] \<and>
   sent ''first'' fresh (GetFollowersForUser (New ''app'' offline :: (string GQLFollowersQuery, nat) Client)
       \<lparr>User_ID = go_string ''44322889''\<rparr> \<lparr>First = 101, After = graphql_String []\<rparr> fresh)
     = [Some (graphql_Int 25)] \<and>
   sent ''first'' fresh (GetFollowersForChannel (New ''app'' offline :: (string GQLFollowersQuery, nat) Client)
       \<lparr>Channel_ID = go_int 44322889\<rparr> \<lparr>First = 101, After = graphql_String []\<rparr> fresh)
     = [Some (graphql_Int 25)] \<and>
   sent ''first'' fresh (GetModsForUser (New ''app'' offline :: (string GQLModsQuery, nat) Client)
       \<lparr>User_ID = go_string ''44322889''\<rparr> \<lparr>First = 101, After = graphql_String []\<rparr> fresh)
     = [Some (graphql_Int 25)] \<and>
   sent ''first'' fresh (GetVIPsForUser (New ''app'' offline :: (string GQLVIPsQuery, nat) Client)
       \<lparr>User_ID = go_string ''44322889''\<rparr> \<lparr>First = 101, After = graphql_String []\<rparr> fresh)
     = [Some (graphql_Int 25)] \<and>
   sent ''first'' fresh (GetStreams (New ''app'' offline :: (string GQLStreamsQuery, nat) Client)
       \<lparr>First = 100, After = graphql_String [], Options = go_slice []\<rparr> fresh)
     = [Some (graphql_Int 100)] \<and>
   sent ''first'' fresh (GetVideos (New ''app'' offline :: (string GQLVideosQuery, nat) Client)
       \<lparr>First = 1, After = graphql_String []\<rparr> fresh)
     = [Some (graphql_Int 1)] \<and>
   sent ''first'' fresh (GetGames (New ''app'' offline :: (string GQLGamesQuery, nat) Client)
       \<lparr>First = 100, After = graphql_String [], Options = go_slice []\<rparr> fresh)
     = [Some (graphql_Int 100)] \<and>
   sent ''first'' fresh (GetVideosByUser (New ''app'' offline :: (string GQLUserVideosQuery, nat) Client)
       \<lparr>User_ID = go_string ''44322889''\<rparr> \<lparr>First = 1, After = graphql_String []\<rparr> fresh)
     = [Some (graphql_Int 1)] \<and>
   sent ''first'' fresh (GetFollowersForUser (New ''app'' offline :: (string GQLFollowersQuery, nat) Client)
       \<lparr>User_ID = go_string ''44322889''\<rparr> \<lparr>First = 1, After = graphql_String []\<rparr> fresh)
     = [Some (graphql_Int 1)] \<and>
   sent ''first'' fresh (GetFollowersForChannel (New ''app'' offline :: (string GQLFollowersQuery, nat) Client)
       \<lparr>Channel_ID = go_int 44322889\<rparr> \<lparr>First = 1, After = graphql_String []\<rparr> fresh)
     = [Some (graphql_Int 1)] \<and>
   sent ''first'' fresh (GetModsForUser (New ''app'' offline :: (string GQLModsQuery, nat) Client)
       \<lparr>User_ID = go_string ''44322889''\<rparr> \<lparr>First = 1, After = graphql_String []\<rparr> fresh)
     = [Some (graphql_Int 1)] \<and>
   sent ''first'' fresh (GetVIPsForUser (New ''app'' offline :: (string GQLVIPsQuery, nat) Client)
       \<lparr>User_ID = go_string ''44322889''\<rparr> \<lparr>First = 1, After = graphql_String []\<rparr> fresh)
     = [Some (graphql_Int 1)] \<and>
   sent ''first'' fresh (GetStreams (New ''app'' offline :: (string GQLStreamsQuery, nat) Client)
       \<lparr>First = (- 3), After = graphql_String [], Options = go_slice []\<rparr> fresh)
     = [Some (graphql_Int 25)] \<and>
   sent ''first'' fresh (GetVideos (New ''app'' offline :: (string GQLVideosQuery, nat) Client)
       \<lparr>First = 100, After = graphql_String []\<rparr> fresh)
     = [Some (graphql_Int 100)] \<and>
   sent ''first'' fresh (GetVideosByUser (New ''app'' offline :: (string GQLUserVideosQuery, nat) Client)
       \<lparr>User_ID = go_nil\<rparr> \<lparr>First = 100, After = graphql_String []\<rparr> fresh)
     = [Some (graphql_Int 100)]"
  using
    first_clamped_to_25
      [of "\<lparr>User_ID = go_string ''44322889''\<rparr>"
          "\<lparr>Channel_ID = go_int 44322889\<rparr>"
          fresh
          "(New ''app'' offline :: (string GQLStreamsQuery, nat) Client)"
          "\<lparr>First = 0, After = graphql_String [], Options = go_slice []\<rparr>"
          fresh
          "(New ''app'' offline :: (string GQLVideosQuery, nat) Client)"
          "\<lparr>First = 101, After = graphql_String []\<rparr>"
          fresh
          "(New ''app'' offline :: (string GQLGamesQuery, nat) Client)"
          fresh
          "(New ''app'' offline :: (string GQLUserVideosQuery, nat) Client)"
          "\<lparr>User_ID = go_string []\<rparr>"
          fresh
          "(New ''app'' offline :: (string GQLFollowersQuery, nat) Client)"
          fresh
          "(New ''app'' offline :: (string GQLModsQuery, nat) Client)"
          fresh
          "(New ''app'' offline :: (string GQLVIPsQuery, nat) Client)"]
    first_clamped_to_25
      [of "\<lparr>User_ID = go_string ''44322889''\<rparr>"
          "\<lparr>Channel_ID = go_int 44322889\<rparr>"
          fresh
          "(New ''app'' offline :: (string GQLStreamsQuery, nat) Client)"
          "\<lparr>First = 100, After = graphql_String [], Options = go_slice []\<rparr>"
          fresh
          "(New ''app'' offline :: (string GQLVideosQuery, nat) Client)"
          "\<lparr>First = 1, After = graphql_String []\<rparr>"
          fresh
          "(New ''app'' offline :: (string GQLGamesQuery, nat) Client)"
          fresh
          "(New ''app'' offline :: (string GQLUserVideosQuery, nat) Client)"
          "\<lparr>User_ID = go_string ''44322889''\<rparr>"
          fresh
          "(New ''app'' offline :: (string GQLFollowersQuery, nat) Client)"
          fresh
          "(New ''app'' offline :: (string GQLModsQuery, nat) Client)"
          fresh
          "(New ''app'' offline :: (string GQLVIPsQuery, nat) Client)"]
    first_clamped_to_25
      [of "\<lparr>User_ID = go_string ''44322889''\<rparr>"
          "\<lparr>Channel_ID = go_int 44322889\<rparr>"
          fresh
          "(New ''app'' offline :: (string GQLStreamsQuery, nat) Client)"
          "\<lparr>First = (- 3), After = graphql_String [], Options = go_slice []\<rparr>"
          fresh
          "(New ''app'' offline :: (string GQLVideosQuery, nat) Client)"
          "\<lparr>First = 100, After = graphql_String []\<rparr>"
          fresh
          "(New ''app'' offline :: (string GQLGamesQuery, nat) Client)"
          fresh
          "(New ''app'' offline :: (string GQLUserVideosQuery, nat) Client)"
          "\<lparr>User_ID = go_nil\<rparr>"
          fresh
          "(New ''app'' offline :: (string GQLFollowersQuery, nat) Client)"
          fresh
          "(New ''app'' offline :: (string GQLModsQuery, nat) Client)"
          fresh
          "(New ''app'' offline :: (string GQLVIPsQuery, nat) Client)"]
  by (simp add: Sprint_int_def decimal_nonempty)

text \<open>
  Claim C2. Given more than 100 identifiers, each bulk lookup (\<open>GetUsersByID\<close>,
  \<open>GetUsersByLogin\<close>, \<open>GetChannelsByID\<close>, \<open>GetChannelsByName\<close>) returns
  \<open>ErrTooManyArguments\<close> and leaves the world as it was: no exchange with the transport.
  Given at most 100, it calls the transport's \<open>Query\<close> once, with a variable mapping that
  holds the marshalled identifiers.
\<close>

theorem bulk_lookup_limit:
  "(100 < length ids \<longrightarrow>
      GetUsersByID c1 ids w1 = (Inr (Some [], Some ErrTooManyArguments), w1) \<and>
      GetUsersByLogin c2 ids w2 = (Inr (Some [], Some ErrTooManyArguments), w2) \<and>
      GetChannelsByID c3 ids w3 = (Inr (Some [], Some ErrTooManyArguments), w3) \<and>
      GetChannelsByName c4 ids w4 = (Inr (Some [], Some ErrTooManyArguments), w4)) \<and>
   (length ids \<le> 100 \<longrightarrow>
      exchanges w1 (GetUsersByID c1 ids w1) =
        [(QueryRequest (GQLUserIDsQuery None) [''ids'' \<mapsto> toIDs ids],
          fst (Query (graphql c1) (GQLUserIDsQuery None) [''ids'' \<mapsto> toIDs ids] (remote w1)))] \<and>
      exchanges w2 (GetUsersByLogin c2 ids w2) =
        [(QueryRequest (GQLUserLoginsQuery None) [''logins'' \<mapsto> toStrings ids],
          fst (Query (graphql c2) (GQLUserLoginsQuery None) [''logins'' \<mapsto> toStrings ids]
                 (remote w2)))] \<and>
      exchanges w3 (GetChannelsByID c3 ids w3) =
        [(QueryRequest (GQLChannelIDsQuery None) [''ids'' \<mapsto> toIDs ids],
          fst (Query (graphql c3) (GQLChannelIDsQuery None) [''ids'' \<mapsto> toIDs ids]
                 (remote w3)))] \<and>
      exchanges w4 (GetChannelsByName c4 ids w4) =
        [(QueryRequest (GQLChannelNamesQuery None) [''names'' \<mapsto> toStrings ids],
          fst (Query (graphql c4) (GQLChannelNamesQuery None) [''names'' \<mapsto> toStrings ids]
                 (remote w4)))])"
  by (simp add: GetUsersByID_def GetUsersByLogin_def GetChannelsByID_def GetChannelsByName_def
      run_simps
      split: sum.splits prod.splits GQLUserIDsQuery.splits GQLUserLoginsQuery.splits
        GQLChannelIDsQuery.splits GQLChannelNamesQuery.splits)

theorem bulk_lookup_limit_witness:
  "100 < length (replicate 101 ''44322889'') \<and>
   GetUsersByID (New ''app'' offline) (replicate 101 ''44322889'') fresh =
     (Inr (Some [], Some ErrTooManyArguments), fresh) \<and>
   GetUsersByLogin (New ''app'' offline) (replicate 101 ''44322889'') fresh =
     (Inr (Some [], Some ErrTooManyArguments), fresh) \<and>
   GetChannelsByID (New ''app'' offline) (replicate 101 ''44322889'') fresh =
     (Inr (Some [], Some ErrTooManyArguments), fresh) \<and>
   GetChannelsByName (New ''app'' offline) (replicate 101 ''44322889'') fresh =
     (Inr (Some [], Some ErrTooManyArguments), fresh) \<and>
   length [''44322889'', ''12826''] \<le> 100 \<and>
   exchanges fresh (GetUsersByID (New ''app'' offline) [''44322889'', ''12826''] fresh) =
     [(QueryRequest (GQLUserIDsQuery None)
         [''ids'' \<mapsto> go_slice [go_string ''44322889'', go_string ''12826'']],
       Inr (GQLUserIDsQuery None, Some (other_error ''connection refused'')))] \<and>
   exchanges fresh (GetUsersByLogin (New ''app'' offline) [''44322889'', ''12826''] fresh) =
     [(QueryRequest (GQLUserLoginsQuery None)
         [''logins'' \<mapsto> go_slice [graphql_String ''44322889'', graphql_String ''12826'']],
       Inr (GQLUserLoginsQuery None, Some (other_error ''connection refused'')))] \<and>
   exchanges fresh (GetChannelsByID (New ''app'' offline) [''44322889'', ''12826''] fresh) =
     [(QueryRequest (GQLChannelIDsQuery None)
         [''ids'' \<mapsto> go_slice [go_string ''44322889'', go_string ''12826'']],
       Inr (GQLChannelIDsQuery None, Some (other_error ''connection refused'')))] \<and>
   exchanges fresh (GetChannelsByName (New ''app'' offline) [''44322889'', ''12826''] fresh) =
     [(QueryRequest (GQLChannelNamesQuery None)
         [''names'' \<mapsto> go_slice [graphql_String ''44322889'', graphql_String ''12826'']],
       Inr (GQLChannelNamesQuery None, Some (other_error ''connection refused'')))]"
  using bulk_lookup_limit
    [of "replicate 101 ''44322889''"
        "New ''app'' offline" fresh "New ''app'' offline" fresh
        "New ''app'' offline" fresh "New ''app'' offline" fresh]
    bulk_lookup_limit
    [of "[''44322889'', ''12826'']"
        "New ''app'' offline" fresh "New ''app'' offline" fresh
        "New ''app'' offline" fresh "New ''app'' offline" fresh]
  by (simp add: New_def offline_def fresh_def toIDs_def toStrings_def nil_variable_simps)

text \<open>
  Claim C3. \<open>GetCurrentUser\<close> on a client whose bearer token is empty, as it is after
  \<open>New\<close>, returns \<open>ErrTokenNotSet\<close> and leaves the world as it was: no exchange with the
  transport. \<open>SetBearer\<close> stores any string as given and touches nothing else. After
  \<open>SetBearer\<close> with a non-empty string the same call calls the transport's \<open>Query\<close>
  once (with no variables); after \<open>SetBearer\<close> with the empty string it fails
  with \<open>ErrTokenNotSet\<close> again.
\<close>

theorem token_guard:
  "(bearer c = [] \<longrightarrow> GetCurrentUser c w = (Inr (None, Some ErrTokenNotSet), w)) \<and>
   GetCurrentUser (New app t) w = (Inr (None, Some ErrTokenNotSet), w) \<and>
   SetBearer c token = c\<lparr>bearer := token\<rparr> \<and>
   (token \<noteq> [] \<longrightarrow>
      exchanges w (GetCurrentUser (SetBearer c token) w) =
        [(QueryRequest (GQLCurrentUserQuery None) Map.empty,
          fst (Query (graphql c) (GQLCurrentUserQuery None) Map.empty (remote w)))]) \<and>
   GetCurrentUser (SetBearer (SetBearer c token) []) w = (Inr (None, Some ErrTokenNotSet), w)"
  by (simp add: GetCurrentUser_def SetBearer_def New_def run_simps
      split: sum.splits prod.splits GQLCurrentUserQuery.splits)

theorem token_guard_witness:
  "bearer (New ''app'' offline) = [] \<and>
   GetCurrentUser (New ''app'' offline) fresh = (Inr (None, Some ErrTokenNotSet), fresh) \<and>
   ''x'' \<noteq> [] \<and>
   exchanges fresh (GetCurrentUser (SetBearer (New ''app'' offline) ''x'') fresh) =
     [(QueryRequest (GQLCurrentUserQuery None) Map.empty,
       Inr (GQLCurrentUserQuery None, Some (other_error ''connection refused'')))] \<and>
   GetCurrentUser (SetBearer (SetBearer (New ''app'' offline) ''x'') []) fresh =
     (Inr (None, Some ErrTokenNotSet), fresh)"
  using token_guard [of "New ''app'' offline" fresh "''app''" offline "''x''"]
  by (simp add: New_def offline_def fresh_def SetBearer_def nil_variable_simps)

text \<open>
  Claim C4. For every user whose ID is nil or stringifies to the empty string,
  \<open>GetFollowersForUser\<close>, \<open>GetModsForUser\<close> and \<open>GetVIPsForUser\<close> return
  \<open>ErrInvalidArgument\<close> and leave the world as it was (no exchange with the transport); for
  every other user they call the transport once, with the user's ID as given under \<open>id\<close>.
\<close>

theorem subject_id_guard:
  "(User_ID u = go_nil \<or> Sprint (User_ID u) = [] \<longrightarrow>
      GetFollowersForUser c1 u opts w1 = (Inr (None, Some ErrInvalidArgument), w1) \<and>
      GetModsForUser c2 u opts w2 = (Inr (None, Some ErrInvalidArgument), w2) \<and>
      GetVIPsForUser c3 u opts w3 = (Inr (None, Some ErrInvalidArgument), w3)) \<and>
   (User_ID u \<noteq> go_nil \<and> Sprint (User_ID u) \<noteq> [] \<longrightarrow>
      sent ''id'' w1 (GetFollowersForUser c1 u opts w1) = [Some (User_ID u)] \<and>
      sent ''id'' w2 (GetModsForUser c2 u opts w2) = [Some (User_ID u)] \<and>
      sent ''id'' w3 (GetVIPsForUser c3 u opts w3) = [Some (User_ID u)])"
proof (cases "User_ID u = go_nil \<or> Sprint (User_ID u) = []")
  case True
  then have "GetFollowersForUser c1 u opts w1 = (Inr (None, Some ErrInvalidArgument), w1)"
    and "GetModsForUser c2 u opts w2 = (Inr (None, Some ErrInvalidArgument), w2)"
    and "GetVIPsForUser c3 u opts w3 = (Inr (None, Some ErrInvalidArgument), w3)"
    by (simp_all add: GetFollowersForUser_def GetModsForUser_def GetVIPsForUser_def)
  with True show ?thesis by blast
next
  case False
  then have ok: "User_ID u \<noteq> go_nil" "Sprint (User_ID u) \<noteq> []"
    by simp_all
  obtain o1 s1 where r1: "Query (graphql c1) (GQLFollowersQuery None)
      [''id'' \<mapsto> User_ID u,
       ''first'' \<mapsto> graphql_Int (if First opts < 1 \<or> 100 < First opts then 25 else First opts),
       ''after'' \<mapsto> After opts] (remote w1) = (o1, s1)"
    by (rule prod.exhaust)
  obtain o2 s2 where r2: "Query (graphql c2) (GQLModsQuery None)
      [''id'' \<mapsto> User_ID u,
       ''first'' \<mapsto> graphql_Int (if First opts < 1 \<or> 100 < First opts then 25 else First opts),
       ''after'' \<mapsto> After opts] (remote w2) = (o2, s2)"
    by (rule prod.exhaust)
  obtain o3 s3 where r3: "Query (graphql c3) (GQLVIPsQuery None)
      [''id'' \<mapsto> User_ID u,
       ''first'' \<mapsto> graphql_Int (if First opts < 1 \<or> 100 < First opts then 25 else First opts),
       ''after'' \<mapsto> After opts] (remote w3) = (o3, s3)"
    by (rule prod.exhaust)
  from False show ?thesis
    by (simp add: GetFollowersForUser_run [OF ok r1] GetModsForUser_run [OF ok r2]
        GetVIPsForUser_run [OF ok r3] sent_def exchanges_def)
qed

theorem subject_id_guard_witness:
  "(User_ID \<lparr>User_ID = go_nil\<rparr> = go_nil \<or> Sprint (User_ID \<lparr>User_ID = go_nil\<rparr>) = []) \<and>
   GetFollowersForUser (New ''app'' offline :: (string GQLFollowersQuery, nat) Client)
      \<lparr>User_ID = go_nil\<rparr> \<lparr>First = 25, After = graphql_String []\<rparr> fresh
     = (Inr (None, Some ErrInvalidArgument), fresh) \<and>
   GetModsForUser (New ''app'' offline :: (string GQLModsQuery, nat) Client)
      \<lparr>User_ID = go_nil\<rparr> \<lparr>First = 25, After = graphql_String []\<rparr> fresh
     = (Inr (None, Some ErrInvalidArgument), fresh) \<and>
   GetVIPsForUser (New ''app'' offline :: (string GQLVIPsQuery, nat) Client)
      \<lparr>User_ID = go_nil\<rparr> \<lparr>First = 25, After = graphql_String []\<rparr> fresh
     = (Inr (None, Some ErrInvalidArgument), fresh) \<and>
   Sprint (User_ID \<lparr>User_ID = go_string []\<rparr>) = [] \<and>
   GetModsForUser (New ''app'' offline :: (string GQLModsQuery, nat) Client)
      \<lparr>User_ID = go_string []\<rparr> \<lparr>First = 25, After = graphql_String []\<rparr> fresh
     = (Inr (None, Some ErrInvalidArgument), fresh) \<and>
   User_ID \<lparr>User_ID = go_string ''44322889''\<rparr> \<noteq> go_nil \<and>
   Sprint (User_ID \<lparr>User_ID = go_string ''44322889''\<rparr>) \<noteq> [] \<and>
   sent ''id'' fresh (GetFollowersForUser (New ''app'' offline :: (string GQLFollowersQuery, nat) Client)
      \<lparr>User_ID = go_string ''44322889''\<rparr> \<lparr>First = 25, After = graphql_String []\<rparr> fresh)
     = [Some (go_string ''44322889'')] \<and>
   sent ''id'' fresh (GetModsForUser (New ''app'' offline :: (string GQLModsQuery, nat) Client)
      \<lparr>User_ID = go_string ''44322889''\<rparr> \<lparr>First = 25, After = graphql_String []\<rparr> fresh)
     = [Some (go_string ''44322889'')] \<and>
   sent ''id'' fresh (GetVIPsForUser (New ''app'' offline :: (string GQLVIPsQuery, nat) Client)
      \<lparr>User_ID = go_string ''44322889''\<rparr> \<lparr>First = 25, After = graphql_String []\<rparr> fresh)
     = [Some (go_string ''44322889'')]"
  using
    subject_id_guard [of "\<lparr>User_ID = go_nil\<rparr>"
      "(New ''app'' offline :: (string GQLFollowersQuery, nat) Client)" "\<lparr>First = 25, After = graphql_String []\<rparr>" fresh
      "(New ''app'' offline :: (string GQLModsQuery, nat) Client)" fresh
      "(New ''app'' offline :: (string GQLVIPsQuery, nat) Client)" fresh]
    subject_id_guard [of "\<lparr>User_ID = go_string []\<rparr>"
      "(New ''app'' offline :: (string GQLFollowersQuery, nat) Client)" "\<lparr>First = 25, After = graphql_String []\<rparr>" fresh
      "(New ''app'' offline :: (string GQLModsQuery, nat) Client)" fresh
      "(New ''app'' offline :: (string GQLVIPsQuery, nat) Client)" fresh]
    subject_id_guard [of "\<lparr>User_ID = go_string ''44322889''\<rparr>"
      "(New ''app'' offline :: (string GQLFollowersQuery, nat) Client)" "\<lparr>First = 25, After = graphql_String []\<rparr>" fresh
      "(New ''app'' offline :: (string GQLModsQuery, nat) Client)" fresh
      "(New ''app'' offline :: (string GQLVIPsQuery, nat) Client)" fresh]
  by simp

text \<open>
  Claim C5. Each channel-scoped relationship operation returns what the user-scoped one
  returns on the user built from the channel's ID, in the same world and with the same
  options: the same result or error and the same resulting world, hence the same exchange
  with the transport. \<open>GetVideosByChannel\<close>, \<open>GetModsForChannel\<close> and
  \<open>GetVIPsForChannel\<close> delegate; \<open>GetFollowersForChannel\<close> repeats the body of
  \<open>GetFollowersForUser\<close>.
\<close>

theorem channel_delegates_to_user:
  "GetVideosByChannel c1 channel opts w1 =
     GetVideosByUser c1 \<lparr>User_ID = Channel_ID channel\<rparr> opts w1 \<and>
   GetModsForChannel c2 channel opts w2 =
     GetModsForUser c2 \<lparr>User_ID = Channel_ID channel\<rparr> opts w2 \<and>
   GetVIPsForChannel c3 channel opts w3 =
     GetVIPsForUser c3 \<lparr>User_ID = Channel_ID channel\<rparr> opts w3 \<and>
   GetFollowersForChannel c4 channel opts w4 =
     GetFollowersForUser c4 \<lparr>User_ID = Channel_ID channel\<rparr> opts w4"
  by (simp add: GetVideosByChannel_def GetModsForChannel_def GetVIPsForChannel_def
      GetFollowersForChannel_def GetFollowersForUser_def)

text \<open>
  Claim C6. For \<open>GetVideosByUser\<close>, \<open>GetFollowersForUser\<close> and \<open>GetFollowersForChannel\<close>:
  whenever the call of the transport came back with a nil outer payload and the error
  \<open>err\<close> (possibly nil), the operation returns the nil result together with \<open>err\<close>; it
  does not panic on the nested field.
\<close>

theorem nil_payload_returns_nil:
  "(map snd (exchanges w1 (GetVideosByUser c1 u opts w1)) = [Inr (GQLUserVideosQuery None, err)] \<longrightarrow>
      fst (GetVideosByUser c1 u opts w1) = Inr (None, err)) \<and>
   (map snd (exchanges w2 (GetFollowersForUser c2 u opts w2)) = [Inr (GQLFollowersQuery None, err)] \<longrightarrow>
      fst (GetFollowersForUser c2 u opts w2) = Inr (None, err)) \<and>
   (map snd (exchanges w3 (GetFollowersForChannel c3 ch opts w3)) = [Inr (GQLFollowersQuery None, err)] \<longrightarrow>
      fst (GetFollowersForChannel c3 ch opts w3) = Inr (None, err))"
proof -
  have videos: "fst (GetVideosByUser c1 u opts w1) = Inr (None, err)"
    if h: "map snd (exchanges w1 (GetVideosByUser c1 u opts w1)) = [Inr (GQLUserVideosQuery None, err)]"
  proof -
    obtain out s where r: "Query (graphql c1) (GQLUserVideosQuery None)
        [''id'' \<mapsto> User_ID u,
         ''first'' \<mapsto> graphql_Int (if First opts < 1 \<or> 100 < First opts then 25 else First opts),
         ''after'' \<mapsto> After opts] (remote w1) = (out, s)"
      by (rule prod.exhaust)
    from h show ?thesis
      by (simp add: GetVideosByUser_run [OF r] exchanges_def)
  qed
  have followers: "fst (GetFollowersForUser c2 u opts w2) = Inr (None, err)"
    if h: "map snd (exchanges w2 (GetFollowersForUser c2 u opts w2)) = [Inr (GQLFollowersQuery None, err)]"
  proof (cases "User_ID u = go_nil \<or> Sprint (User_ID u) = []")
    case True
    then have "GetFollowersForUser c2 u opts w2 = (Inr (None, Some ErrInvalidArgument), w2)"
      by (simp add: GetFollowersForUser_def)
    with h show ?thesis by simp
  next
    case False
    then have ok: "User_ID u \<noteq> go_nil" "Sprint (User_ID u) \<noteq> []"
      by simp_all
    obtain out s where r: "Query (graphql c2) (GQLFollowersQuery None)
        [''id'' \<mapsto> User_ID u,
         ''first'' \<mapsto> graphql_Int (if First opts < 1 \<or> 100 < First opts then 25 else First opts),
         ''after'' \<mapsto> After opts] (remote w2) = (out, s)"
      by (rule prod.exhaust)
    from h show ?thesis
      by (simp add: GetFollowersForUser_run [OF ok r] exchanges_def)
  qed
  have channel: "fst (GetFollowersForChannel c3 ch opts w3) = Inr (None, err)"
    if h: "map snd (exchanges w3 (GetFollowersForChannel c3 ch opts w3)) = [Inr (GQLFollowersQuery None, err)]"
  proof (cases "Channel_ID ch = go_nil \<or> Sprint (Channel_ID ch) = []")
    case True
    then have "GetFollowersForChannel c3 ch opts w3 = (Inr (None, Some ErrInvalidArgument), w3)"
      by (simp add: GetFollowersForChannel_def)
    with h show ?thesis by simp
  next
    case False
    then have ok: "Channel_ID ch \<noteq> go_nil" "Sprint (Channel_ID ch) \<noteq> []"
      by simp_all
    obtain out s where r: "Query (graphql c3) (GQLFollowersQuery None)
        [''id'' \<mapsto> Channel_ID ch,
         ''first'' \<mapsto> graphql_Int (if First opts < 1 \<or> 100 < First opts then 25 else First opts),
         ''after'' \<mapsto> After opts] (remote w3) = (out, s)"
      by (rule prod.exhaust)
    from h show ?thesis
      by (simp add: GetFollowersForChannel_run [OF ok r] exchanges_def)
  qed
  from videos followers channel show ?thesis by blast
qed

theorem nil_payload_returns_nil_witness:
  "map snd (exchanges fresh (GetVideosByUser
       (New ''app'' offline :: (string GQLUserVideosQuery, nat) Client)
       \<lparr>User_ID = go_string ''0''\<rparr> \<lparr>First = 25, After = graphql_String []\<rparr> fresh))
     = [Inr (GQLUserVideosQuery None, Some (other_error ''connection refused''))] \<and>
   fst (GetVideosByUser (New ''app'' offline :: (string GQLUserVideosQuery, nat) Client)
       \<lparr>User_ID = go_string ''0''\<rparr> \<lparr>First = 25, After = graphql_String []\<rparr> fresh)
     = Inr (None, Some (other_error ''connection refused'')) \<and>
   map snd (exchanges fresh (GetFollowersForUser
       (New ''app'' offline :: (string GQLFollowersQuery, nat) Client)
       \<lparr>User_ID = go_string ''0''\<rparr> \<lparr>First = 25, After = graphql_String []\<rparr> fresh))
     = [Inr (GQLFollowersQuery None, Some (other_error ''connection refused''))] \<and>
   fst (GetFollowersForUser (New ''app'' offline :: (string GQLFollowersQuery, nat) Client)
       \<lparr>User_ID = go_string ''0''\<rparr> \<lparr>First = 25, After = graphql_String []\<rparr> fresh)
     = Inr (None, Some (other_error ''connection refused'')) \<and>
   map snd (exchanges fresh (GetFollowersForChannel
       (New ''app'' offline :: (string GQLFollowersQuery, nat) Client)
       \<lparr>Channel_ID = go_string ''0''\<rparr> \<lparr>First = 25, After = graphql_String []\<rparr> fresh))
     = [Inr (GQLFollowersQuery None, Some (other_error ''connection refused''))] \<and>
   fst (GetFollowersForChannel (New ''app'' offline :: (string GQLFollowersQuery, nat) Client)
       \<lparr>Channel_ID = go_string ''0''\<rparr> \<lparr>First = 25, After = graphql_String []\<rparr> fresh)
     = Inr (None, Some (other_error ''connection refused''))"
proof -
  have v: "map snd (exchanges fresh (GetVideosByUser
       (New ''app'' offline :: (string GQLUserVideosQuery, nat) Client)
       \<lparr>User_ID = go_string ''0''\<rparr> \<lparr>First = 25, After = graphql_String []\<rparr> fresh))
     = [Inr (GQLUserVideosQuery None, Some (other_error ''connection refused''))]"
    by (simp add: GetVideosByUser_def New_def offline_def fresh_def CustomQuery_def
        exchanges_def Let_def nil_variable_simps)
  have f: "map snd (exchanges fresh (GetFollowersForUser
       (New ''app'' offline :: (string GQLFollowersQuery, nat) Client)
       \<lparr>User_ID = go_string ''0''\<rparr> \<lparr>First = 25, After = graphql_String []\<rparr> fresh))
     = [Inr (GQLFollowersQuery None, Some (other_error ''connection refused''))]"
    by (simp add: GetFollowersForUser_def New_def offline_def fresh_def CustomQuery_def
        exchanges_def Let_def nil_variable_simps)
  have c: "map snd (exchanges fresh (GetFollowersForChannel
       (New ''app'' offline :: (string GQLFollowersQuery, nat) Client)
       \<lparr>Channel_ID = go_string ''0''\<rparr> \<lparr>First = 25, After = graphql_String []\<rparr> fresh))
     = [Inr (GQLFollowersQuery None, Some (other_error ''connection refused''))]"
    by (simp add: GetFollowersForChannel_def New_def offline_def fresh_def CustomQuery_def
        exchanges_def Let_def nil_variable_simps)
  from v f c
    nil_payload_returns_nil
      [of fresh "New ''app'' offline :: (string GQLUserVideosQuery, nat) Client"
          "\<lparr>User_ID = go_string ''0''\<rparr>" "\<lparr>First = 25, After = graphql_String []\<rparr>"
          "Some (other_error ''connection refused'')"
          fresh "New ''app'' offline :: (string GQLFollowersQuery, nat) Client"
          fresh "New ''app'' offline :: (string GQLFollowersQuery, nat) Client"
          "\<lparr>Channel_ID = go_string ''0''\<rparr>"]
  show ?thesis by simp
qed

text \<open>
  Claim C7. \<open>GetModsForUser\<close> and \<open>GetVIPsForUser\<close> read the nested field of the outer
  payload without a nil check: whatever payload the call of the transport left in the
  descriptor, the operation dereferences it. With a nil payload the dereference is reached
  and the run panics; with a payload it returns the nested connection and the transport's
  error.
\<close>

theorem mods_vips_read_unchecked:
  "(map snd (exchanges w1 (GetModsForUser c1 u opts w1)) = [Inr (GQLModsQuery Data1, err)] \<longrightarrow>
      fst (GetModsForUser c1 u opts w1) =
        (case Data1 of None \<Rightarrow> Inl nil_pointer_dereference | Some d \<Rightarrow> Inr (Mods d, err))) \<and>
   (map snd (exchanges w2 (GetVIPsForUser c2 u opts w2)) = [Inr (GQLVIPsQuery Data2, err)] \<longrightarrow>
      fst (GetVIPsForUser c2 u opts w2) =
        (case Data2 of None \<Rightarrow> Inl nil_pointer_dereference | Some d \<Rightarrow> Inr (VIPs d, err)))"
proof -
  have mods: "fst (GetModsForUser c1 u opts w1) =
        (case Data1 of None \<Rightarrow> Inl nil_pointer_dereference | Some d \<Rightarrow> Inr (Mods d, err))"
    if h: "map snd (exchanges w1 (GetModsForUser c1 u opts w1)) = [Inr (GQLModsQuery Data1, err)]"
  proof (cases "User_ID u = go_nil \<or> Sprint (User_ID u) = []")
    case True
    then have "GetModsForUser c1 u opts w1 = (Inr (None, Some ErrInvalidArgument), w1)"
      by (simp add: GetModsForUser_def)
    with h show ?thesis by simp
  next
    case False
    then have ok: "User_ID u \<noteq> go_nil" "Sprint (User_ID u) \<noteq> []"
      by simp_all
    obtain out s where r: "Query (graphql c1) (GQLModsQuery None)
        [''id'' \<mapsto> User_ID u,
         ''first'' \<mapsto> graphql_Int (if First opts < 1 \<or> 100 < First opts then 25 else First opts),
         ''after'' \<mapsto> After opts] (remote w1) = (out, s)"
      by (rule prod.exhaust)
    from h show ?thesis
      by (auto simp add: GetModsForUser_run [OF ok r] exchanges_def)
  qed
  have vips: "fst (GetVIPsForUser c2 u opts w2) =
        (case Data2 of None \<Rightarrow> Inl nil_pointer_dereference | Some d \<Rightarrow> Inr (VIPs d, err))"
    if h: "map snd (exchanges w2 (GetVIPsForUser c2 u opts w2)) = [Inr (GQLVIPsQuery Data2, err)]"
  proof (cases "User_ID u = go_nil \<or> Sprint (User_ID u) = []")
    case True
    then have "GetVIPsForUser c2 u opts w2 = (Inr (None, Some ErrInvalidArgument), w2)"
      by (simp add: GetVIPsForUser_def)
    with h show ?thesis by simp
  next
    case False
    then have ok: "User_ID u \<noteq> go_nil" "Sprint (User_ID u) \<noteq> []"
      by simp_all
    obtain out s where r: "Query (graphql c2) (GQLVIPsQuery None)
        [''id'' \<mapsto> User_ID u,
         ''first'' \<mapsto> graphql_Int (if First opts < 1 \<or> 100 < First opts then 25 else First opts),
         ''after'' \<mapsto> After opts] (remote w2) = (out, s)"
      by (rule prod.exhaust)
    from h show ?thesis
      by (auto simp add: GetVIPsForUser_run [OF ok r] exchanges_def)
  qed
  from mods vips show ?thesis by blast
qed

theorem mods_vips_read_unchecked_witness:
  "map snd (exchanges fresh (GetModsForUser
       (New ''app'' (canned (GQLModsQuery None)) :: (string GQLModsQuery, nat) Client)
       \<lparr>User_ID = go_string ''0''\<rparr> \<lparr>First = 25, After = graphql_String []\<rparr> fresh))
     = [Inr (GQLModsQuery None, None)] \<and>
   fst (GetModsForUser
       (New ''app'' (canned (GQLModsQuery None)) :: (string GQLModsQuery, nat) Client)
       \<lparr>User_ID = go_string ''0''\<rparr> \<lparr>First = 25, After = graphql_String []\<rparr> fresh)
     = Inl nil_pointer_dereference \<and>
   map snd (exchanges fresh (GetVIPsForUser
       (New ''app'' (canned (GQLVIPsQuery (Some (user_vips (Some ''page''))))))
       \<lparr>User_ID = go_string ''0''\<rparr> \<lparr>First = 25, After = graphql_String []\<rparr> fresh))
     = [Inr (GQLVIPsQuery (Some (user_vips (Some ''page''))), None)] \<and>
   fst (GetVIPsForUser
       (New ''app'' (canned (GQLVIPsQuery (Some (user_vips (Some ''page''))))))
       \<lparr>User_ID = go_string ''0''\<rparr> \<lparr>First = 25, After = graphql_String []\<rparr> fresh)
     = Inr (Some ''page'', None)"
proof -
  have m: "map snd (exchanges fresh (GetModsForUser
       (New ''app'' (canned (GQLModsQuery None)) :: (string GQLModsQuery, nat) Client)
       \<lparr>User_ID = go_string ''0''\<rparr> \<lparr>First = 25, After = graphql_String []\<rparr> fresh))
     = [Inr (GQLModsQuery None, None)]"
    by (simp add: GetModsForUser_def New_def canned_def fresh_def CustomQuery_def
        exchanges_def deref_def Let_def nil_variable_simps)
  have v: "map snd (exchanges fresh (GetVIPsForUser
       (New ''app'' (canned (GQLVIPsQuery (Some (user_vips (Some ''page''))))))
       \<lparr>User_ID = go_string ''0''\<rparr> \<lparr>First = 25, After = graphql_String []\<rparr> fresh))
     = [Inr (GQLVIPsQuery (Some (user_vips (Some ''page''))), None)]"
    by (simp add: GetVIPsForUser_def New_def canned_def fresh_def CustomQuery_def
        exchanges_def deref_def Let_def nil_variable_simps)
  from m v
    mods_vips_read_unchecked
      [of fresh "New ''app'' (canned (GQLModsQuery None)) :: (string GQLModsQuery, nat) Client"
          "\<lparr>User_ID = go_string ''0''\<rparr>" "\<lparr>First = 25, After = graphql_String []\<rparr>"
          None None
          fresh "New ''app'' (canned (GQLVIPsQuery (Some (user_vips (Some ''page'')))))"
          "Some (user_vips (Some ''page''))"]
  show ?thesis by simp
qed

text \<open>
  Every operation hands the outcome of the transport's call to its caller as it is: a panic
  of the transport ends the operation with that panic, and for the operations that have no
  unchecked dereference the error of the reply is the error returned.
\<close>

lemma CustomQuery_returns_outcome:
  "fst (CustomQuery client query vars w) = fst (Query (graphql client) query vars (remote w))"
  "fst (CustomMutation client mutation vars w) =
     fst (Mutate (graphql client) mutation vars (remote w))"
  by (simp_all add: CustomQuery_eq CustomMutation_eq)

lemma error_returned_as_is:
  "map snd (exchanges w1 (IsUsernameAvailable c1 name w1)) = [Inr (q1, err)] \<Longrightarrow>
     \<exists>r. fst (IsUsernameAvailable c1 name w1) = Inr (r, err)"
  "map snd (exchanges w2 (GetClipBySlug c2 slug w2)) = [Inr (q2, err)] \<Longrightarrow>
     \<exists>r. fst (GetClipBySlug c2 slug w2) = Inr (r, err)"
  "map snd (exchanges w3 (GetStreams c3 so w3)) = [Inr (q3, err)] \<Longrightarrow>
     \<exists>r. fst (GetStreams c3 so w3) = Inr (r, err)"
  "map snd (exchanges w4 (GetVideos c4 vo w4)) = [Inr (q4, err)] \<Longrightarrow>
     \<exists>r. fst (GetVideos c4 vo w4) = Inr (r, err)"
  "map snd (exchanges w5 (GetGames c5 so w5)) = [Inr (q5, err)] \<Longrightarrow>
     \<exists>r. fst (GetGames c5 so w5) = Inr (r, err)"
  "map snd (exchanges w6 (GetCurrentUser c6 w6)) = [Inr (q6, err)] \<Longrightarrow>
     \<exists>r. fst (GetCurrentUser c6 w6) = Inr (r, err)"
  "map snd (exchanges w7 (GetUsersByID c7 ids w7)) = [Inr (q7, err)] \<Longrightarrow>
     \<exists>r. fst (GetUsersByID c7 ids w7) = Inr (r, err)"
  "map snd (exchanges w8 (GetUsersByLogin c8 ids w8)) = [Inr (q8, err)] \<Longrightarrow>
     \<exists>r. fst (GetUsersByLogin c8 ids w8) = Inr (r, err)"
  "map snd (exchanges w9 (GetChannelsByID c9 ids w9)) = [Inr (q9, err)] \<Longrightarrow>
     \<exists>r. fst (GetChannelsByID c9 ids w9) = Inr (r, err)"
  "map snd (exchanges w10 (GetChannelsByName c10 ids w10)) = [Inr (q10, err)] \<Longrightarrow>
     \<exists>r. fst (GetChannelsByName c10 ids w10) = Inr (r, err)"
proof -
  show "\<exists>r. fst (IsUsernameAvailable c1 name w1) = Inr (r, err)"
    if "map snd (exchanges w1 (IsUsernameAvailable c1 name w1)) = [Inr (q1, err)]"
    using that
    by (auto simp add: IsUsernameAvailable_def run_simps
        split: if_splits sum.splits prod.splits GQLUsernameAvailabilityQuery.splits)
  show "\<exists>r. fst (GetClipBySlug c2 slug w2) = Inr (r, err)"
    if "map snd (exchanges w2 (GetClipBySlug c2 slug w2)) = [Inr (q2, err)]"
    using that
    by (auto simp add: GetClipBySlug_def run_simps
        split: if_splits sum.splits prod.splits GQLClipQuery.splits)
  show "\<exists>r. fst (GetStreams c3 so w3) = Inr (r, err)"
    if "map snd (exchanges w3 (GetStreams c3 so w3)) = [Inr (q3, err)]"
    using that
    by (auto simp add: GetStreams_def run_simps
        split: if_splits sum.splits prod.splits GQLStreamsQuery.splits)
  show "\<exists>r. fst (GetVideos c4 vo w4) = Inr (r, err)"
    if "map snd (exchanges w4 (GetVideos c4 vo w4)) = [Inr (q4, err)]"
    using that
    by (auto simp add: GetVideos_def run_simps
        split: if_splits sum.splits prod.splits GQLVideosQuery.splits)
  show "\<exists>r. fst (GetGames c5 so w5) = Inr (r, err)"
    if "map snd (exchanges w5 (GetGames c5 so w5)) = [Inr (q5, err)]"
    using that
    by (auto simp add: GetGames_def run_simps
        split: if_splits sum.splits prod.splits GQLGamesQuery.splits)
  show "\<exists>r. fst (GetCurrentUser c6 w6) = Inr (r, err)"
    if "map snd (exchanges w6 (GetCurrentUser c6 w6)) = [Inr (q6, err)]"
    using that
    by (auto simp add: GetCurrentUser_def run_simps
        split: if_splits sum.splits prod.splits GQLCurrentUserQuery.splits)
  show "\<exists>r. fst (GetUsersByID c7 ids w7) = Inr (r, err)"
    if "map snd (exchanges w7 (GetUsersByID c7 ids w7)) = [Inr (q7, err)]"
    using that
    by (auto simp add: GetUsersByID_def run_simps
        split: if_splits sum.splits prod.splits GQLUserIDsQuery.splits)
  show "\<exists>r. fst (GetUsersByLogin c8 ids w8) = Inr (r, err)"
    if "map snd (exchanges w8 (GetUsersByLogin c8 ids w8)) = [Inr (q8, err)]"
    using that
    by (auto simp add: GetUsersByLogin_def run_simps
        split: if_splits sum.splits prod.splits GQLUserLoginsQuery.splits)
  show "\<exists>r. fst (GetChannelsByID c9 ids w9) = Inr (r, err)"
    if "map snd (exchanges w9 (GetChannelsByID c9 ids w9)) = [Inr (q9, err)]"
    using that
    by (auto simp add: GetChannelsByID_def run_simps
        split: if_splits sum.splits prod.splits GQLChannelIDsQuery.splits)
  show "\<exists>r. fst (GetChannelsByName c10 ids w10) = Inr (r, err)"
    if "map snd (exchanges w10 (GetChannelsByName c10 ids w10)) = [Inr (q10, err)]"
    using that
    by (auto simp add: GetChannelsByName_def run_simps
        split: if_splits sum.splits prod.splits GQLChannelNamesQuery.splits)
qed

lemma checked_nested_error_returned_as_is:
  "map snd (exchanges w1 (GetVideosByUser c1 u opts w1)) = [Inr (q1, err)] \<Longrightarrow>
     \<exists>r. fst (GetVideosByUser c1 u opts w1) = Inr (r, err)"
  "map snd (exchanges w2 (GetFollowersForUser c2 u opts w2)) = [Inr (q2, err)] \<Longrightarrow>
     \<exists>r. fst (GetFollowersForUser c2 u opts w2) = Inr (r, err)"
proof -
  obtain out s where r: "Query (graphql c1) (GQLUserVideosQuery None)
      [''id'' \<mapsto> User_ID u,
       ''first'' \<mapsto> graphql_Int (if First opts < 1 \<or> 100 < First opts then 25 else First opts),
       ''after'' \<mapsto> After opts] (remote w1) = (out, s)"
    by (rule prod.exhaust)
  show "\<exists>r. fst (GetVideosByUser c1 u opts w1) = Inr (r, err)"
    if "map snd (exchanges w1 (GetVideosByUser c1 u opts w1)) = [Inr (q1, err)]"
    using that
    by (auto simp add: GetVideosByUser_run [OF r] exchanges_def
        split: GQLUserVideosQuery.splits option.splits)
  show "\<exists>r. fst (GetFollowersForUser c2 u opts w2) = Inr (r, err)"
    if h: "map snd (exchanges w2 (GetFollowersForUser c2 u opts w2)) = [Inr (q2, err)]"
  proof (cases "User_ID u = go_nil \<or> Sprint (User_ID u) = []")
    case True
    then have "GetFollowersForUser c2 u opts w2 = (Inr (None, Some ErrInvalidArgument), w2)"
      by (simp add: GetFollowersForUser_def)
    with h show ?thesis by simp
  next
    case False
    then have ok: "User_ID u \<noteq> go_nil" "Sprint (User_ID u) \<noteq> []"
      by simp_all
    obtain out s where r: "Query (graphql c2) (GQLFollowersQuery None)
        [''id'' \<mapsto> User_ID u,
         ''first'' \<mapsto> graphql_Int (if First opts < 1 \<or> 100 < First opts then 25 else First opts),
         ''after'' \<mapsto> After opts] (remote w2) = (out, s)"
      by (rule prod.exhaust)
    from h show ?thesis
      by (auto simp add: GetFollowersForUser_run [OF ok r] exchanges_def
          split: GQLFollowersQuery.splits option.splits)
  qed
qed

text \<open>
  Claim C8. \<open>CustomQuery\<close> and \<open>CustomMutation\<close> return the transport's error as it is, and
  the validation errors are returned without a call of the transport (see the theorems for
  C2, C3 and C4). But not every operation that reaches the transport hands the transport's
  error to its caller: \<open>GetModsForUser\<close> and \<open>GetVIPsForUser\<close> run on a transport that
  fails and leaves the descriptor untouched, as a transport does on a network error, panic on
  the nil payload, and the caller never sees the error, where \<open>GetFollowersForUser\<close>, which
  checks the payload, returns it.
\<close>

theorem mods_vips_lose_transport_error:
  "map snd (exchanges fresh (GetModsForUser
       (New ''app'' offline :: (string GQLModsQuery, nat) Client)
       \<lparr>User_ID = go_string ''44322889''\<rparr> \<lparr>First = 25, After = graphql_String []\<rparr> fresh))
     = [Inr (GQLModsQuery None, Some (other_error ''connection refused''))] \<and>
   fst (GetModsForUser (New ''app'' offline :: (string GQLModsQuery, nat) Client)
       \<lparr>User_ID = go_string ''44322889''\<rparr> \<lparr>First = 25, After = graphql_String []\<rparr> fresh)
     = Inl nil_pointer_dereference \<and>
   map snd (exchanges fresh (GetVIPsForUser
       (New ''app'' offline :: (string GQLVIPsQuery, nat) Client)
       \<lparr>User_ID = go_string ''44322889''\<rparr> \<lparr>First = 25, After = graphql_String []\<rparr> fresh))
     = [Inr (GQLVIPsQuery None, Some (other_error ''connection refused''))] \<and>
   fst (GetVIPsForUser (New ''app'' offline :: (string GQLVIPsQuery, nat) Client)
       \<lparr>User_ID = go_string ''44322889''\<rparr> \<lparr>First = 25, After = graphql_String []\<rparr> fresh)
     = Inl nil_pointer_dereference \<and>
   fst (GetFollowersForUser (New ''app'' offline :: (string GQLFollowersQuery, nat) Client)
       \<lparr>User_ID = go_string ''44322889''\<rparr> \<lparr>First = 25, After = graphql_String []\<rparr> fresh)
     = Inr (None, Some (other_error ''connection refused''))"
  by (simp add: GetModsForUser_def GetVIPsForUser_def GetFollowersForUser_def New_def
      offline_def fresh_def CustomQuery_def exchanges_def deref_def Let_def nil_variable_simps)

text \<open>
  Claim C9. When a bulk lookup (\<open>GetUsersByID\<close>, \<open>GetUsersByLogin\<close>, \<open>GetChannelsByID\<close>,
  \<open>GetChannelsByName\<close>) rejects a list of more than 100 identifiers, the slice returned
  next to \<open>ErrTooManyArguments\<close> is the empty, non-nil slice (\<open>Some []\<close>), not the nil slice
  (\<open>None\<close>).
\<close>

theorem too_many_returns_empty_slice:
  "100 < length ids \<Longrightarrow>
     fst (GetUsersByID c1 ids w1) = Inr (Some [], Some ErrTooManyArguments) \<and>
     fst (GetUsersByLogin c2 ids w2) = Inr (Some [], Some ErrTooManyArguments) \<and>
     fst (GetChannelsByID c3 ids w3) = Inr (Some [], Some ErrTooManyArguments) \<and>
     fst (GetChannelsByName c4 ids w4) = Inr (Some [], Some ErrTooManyArguments) \<and>
     fst (GetUsersByID c1 ids w1) \<noteq> Inr (None, Some ErrTooManyArguments) \<and>
     fst (GetUsersByLogin c2 ids w2) \<noteq> Inr (None, Some ErrTooManyArguments) \<and>
     fst (GetChannelsByID c3 ids w3) \<noteq> Inr (None, Some ErrTooManyArguments) \<and>
     fst (GetChannelsByName c4 ids w4) \<noteq> Inr (None, Some ErrTooManyArguments)"
  by (simp add: GetUsersByID_def GetUsersByLogin_def GetChannelsByID_def GetChannelsByName_def)

theorem too_many_returns_empty_slice_witness:
  "100 < length (replicate 101 ''44322889'') \<and>
   fst (GetUsersByID (New ''app'' offline) (replicate 101 ''44322889'') fresh)
     = Inr (Some [], Some ErrTooManyArguments) \<and>
   fst (GetUsersByLogin (New ''app'' offline) (replicate 101 ''44322889'') fresh)
     = Inr (Some [], Some ErrTooManyArguments) \<and>
   fst (GetChannelsByID (New ''app'' offline) (replicate 101 ''44322889'') fresh)
     = Inr (Some [], Some ErrTooManyArguments) \<and>
   fst (GetChannelsByName (New ''app'' offline) (replicate 101 ''44322889'') fresh)
     = Inr (Some [], Some ErrTooManyArguments)"
  using too_many_returns_empty_slice
    [of "replicate 101 ''44322889''"
        "New ''app'' offline" fresh "New ''app'' offline" fresh
        "New ''app'' offline" fresh "New ''app'' offline" fresh]
  by simp

text \<open>
  Claim C10. \<open>GetVideosByUser\<close>, and \<open>GetVideosByChannel\<close> through it, does not check the
  subject's ID: for a user (or channel) whose ID is nil or stringifies to the empty string it
  still builds the variable mapping, with that ID under \<open>id\<close>, and calls the transport
  once. How the operation ends is decided by that call alone: if the transport panics, the
  operation ends with that panic; if it replies, the operation returns the error of the
  reply. It has no validation error of its own.
\<close>

theorem videos_no_id_check:
  assumes "User_ID u = go_nil \<or> Sprint (User_ID u) = []"
    and "Channel_ID ch = go_nil \<or> Sprint (Channel_ID ch) = []"
  shows
   "sent ''id'' w (GetVideosByUser c u opts w) = [Some (User_ID u)] \<and>
    (\<exists>rq out. exchanges w (GetVideosByUser c u opts w) = [(rq, out)] \<and>
       (case out of
          Inl p \<Rightarrow> fst (GetVideosByUser c u opts w) = Inl p
        | Inr (q, err) \<Rightarrow> (\<exists>r. fst (GetVideosByUser c u opts w) = Inr (r, err)))) \<and>
    sent ''id'' w (GetVideosByChannel c ch opts w) = [Some (Channel_ID ch)] \<and>
    (\<exists>rq out. exchanges w (GetVideosByChannel c ch opts w) = [(rq, out)] \<and>
       (case out of
          Inl p \<Rightarrow> fst (GetVideosByChannel c ch opts w) = Inl p
        | Inr (q, err) \<Rightarrow> (\<exists>r. fst (GetVideosByChannel c ch opts w) = Inr (r, err))))"
proof -
  have user: "sent ''id'' w (GetVideosByUser c x opts w) = [Some (User_ID x)] \<and>
    (\<exists>rq out. exchanges w (GetVideosByUser c x opts w) = [(rq, out)] \<and>
       (case out of
          Inl p \<Rightarrow> fst (GetVideosByUser c x opts w) = Inl p
        | Inr (q, err) \<Rightarrow> (\<exists>r. fst (GetVideosByUser c x opts w) = Inr (r, err))))" for x
  proof -
    obtain out s where r: "Query (graphql c) (GQLUserVideosQuery None)
        [''id'' \<mapsto> User_ID x,
         ''first'' \<mapsto> graphql_Int (if First opts < 1 \<or> 100 < First opts then 25 else First opts),
         ''after'' \<mapsto> After opts] (remote w) = (out, s)"
      by (rule prod.exhaust)
    show ?thesis
      by (simp add: GetVideosByUser_run [OF r] sent_def exchanges_def
          split: sum.splits prod.splits GQLUserVideosQuery.splits option.splits)
  qed
  from user [of u] user [of "\<lparr>User_ID = Channel_ID ch\<rparr>"] show ?thesis
    unfolding GetVideosByChannel_def by simp
qed

theorem videos_no_id_check_witness:
  "(User_ID \<lparr>User_ID = go_string []\<rparr> = go_nil \<or> Sprint (User_ID \<lparr>User_ID = go_string []\<rparr>) = []) \<and>
   (Channel_ID \<lparr>Channel_ID = graphql_String []\<rparr> = go_nil \<or>
      Sprint (Channel_ID \<lparr>Channel_ID = graphql_String []\<rparr>) = []) \<and>
   (User_ID \<lparr>User_ID = go_nil\<rparr> = go_nil \<or> Sprint (User_ID \<lparr>User_ID = go_nil\<rparr>) = []) \<and>
   sent ''id'' fresh (GetVideosByUser
       (New ''app'' offline :: (string GQLUserVideosQuery, nat) Client)
       \<lparr>User_ID = go_string []\<rparr> \<lparr>First = 25, After = graphql_String []\<rparr> fresh)
     = [Some (go_string [])] \<and>
   GetVideosByUser
       (New ''app'' offline :: (string GQLUserVideosQuery, nat) Client)
       \<lparr>User_ID = go_string []\<rparr> \<lparr>First = 25, After = graphql_String []\<rparr> fresh
     = (Inr (None, Some (other_error ''connection refused'')),
        \<lparr>trace = [(QueryRequest (GQLUserVideosQuery None)
             [''id'' \<mapsto> go_string [], ''first'' \<mapsto> graphql_Int 25,
              ''after'' \<mapsto> graphql_String []],
            Inr (GQLUserVideosQuery None, Some (other_error ''connection refused'')))],
         remote = 1\<rparr>) \<and>
   sent ''id'' fresh (GetVideosByChannel
       (New ''app'' offline :: (string GQLUserVideosQuery, nat) Client)
       \<lparr>Channel_ID = graphql_String []\<rparr> \<lparr>First = 25, After = graphql_String []\<rparr> fresh)
     = [Some (graphql_String [])] \<and>
   sent ''id'' fresh (GetVideosByUser
       (New ''app'' offline :: (string GQLUserVideosQuery, nat) Client)
       \<lparr>User_ID = go_nil\<rparr> \<lparr>First = 25, After = graphql_String []\<rparr> fresh)
     = [Some go_nil] \<and>
   GetVideosByUser
       (New ''app'' offline :: (string GQLUserVideosQuery, nat) Client)
       \<lparr>User_ID = go_nil\<rparr> \<lparr>First = 25, After = graphql_String []\<rparr> fresh
     = (Inl nil_pointer_dereference,
        \<lparr>trace = [(QueryRequest (GQLUserVideosQuery None)
             [''id'' \<mapsto> go_nil, ''first'' \<mapsto> graphql_Int 25,
              ''after'' \<mapsto> graphql_String []],
            Inl nil_pointer_dereference)],
         remote = 0\<rparr>) \<and>
   fst (GetFollowersForUser
       (New ''app'' offline :: (string GQLFollowersQuery, nat) Client)
       \<lparr>User_ID = go_nil\<rparr> \<lparr>First = 25, After = graphql_String []\<rparr> fresh)
     = Inr (None, Some ErrInvalidArgument)"
proof -
  have "GetVideosByUser
       (New ''app'' offline :: (string GQLUserVideosQuery, nat) Client)
       \<lparr>User_ID = go_string []\<rparr> \<lparr>First = 25, After = graphql_String []\<rparr> fresh
     = (Inr (None, Some (other_error ''connection refused'')),
        \<lparr>trace = [(QueryRequest (GQLUserVideosQuery None)
             [''id'' \<mapsto> go_string [], ''first'' \<mapsto> graphql_Int 25,
              ''after'' \<mapsto> graphql_String []],
            Inr (GQLUserVideosQuery None, Some (other_error ''connection refused'')))],
         remote = 1\<rparr>)"
    and "GetVideosByUser
       (New ''app'' offline :: (string GQLUserVideosQuery, nat) Client)
       \<lparr>User_ID = go_nil\<rparr> \<lparr>First = 25, After = graphql_String []\<rparr> fresh
     = (Inl nil_pointer_dereference,
        \<lparr>trace = [(QueryRequest (GQLUserVideosQuery None)
             [''id'' \<mapsto> go_nil, ''first'' \<mapsto> graphql_Int 25,
              ''after'' \<mapsto> graphql_String []],
            Inl nil_pointer_dereference)],
         remote = 0\<rparr>)"
    and "fst (GetFollowersForUser
       (New ''app'' offline :: (string GQLFollowersQuery, nat) Client)
       \<lparr>User_ID = go_nil\<rparr> \<lparr>First = 25, After = graphql_String []\<rparr> fresh)
     = Inr (None, Some ErrInvalidArgument)"
    by (simp_all add: GetVideosByUser_def GetFollowersForUser_def New_def offline_def fresh_def
        CustomQuery_def Let_def int32_def nil_variable_simps)
  with
    videos_no_id_check
      [of "\<lparr>User_ID = go_string []\<rparr>" "\<lparr>Channel_ID = graphql_String []\<rparr>" fresh
          "New ''app'' offline :: (string GQLUserVideosQuery, nat) Client"
          "\<lparr>First = 25, After = graphql_String []\<rparr>"]
    videos_no_id_check
      [of "\<lparr>User_ID = go_nil\<rparr>" "\<lparr>Channel_ID = graphql_String []\<rparr>" fresh
          "New ''app'' offline :: (string GQLUserVideosQuery, nat) Client"
          "\<lparr>First = 25, After = graphql_String []\<rparr>"]
  show ?thesis by simp
qed

end
